theory Spec2Isabelle
  imports Complex_Main "HOL-Library.Multiset"
begin

section \<open>BookTheme: the theme-song matching engine\<close>

text \<open>
  A shallow embedding of \<^verbatim>\<open>src/lib/matchThemeSong.ts\<close> and of the types of
  \<^verbatim>\<open>src/lib/types.ts\<close>.

  Conventions of the embedding:
  \<^item> a TypeScript \<^verbatim>\<open>number\<close> is a \<^typ>\<open>real\<close>: arithmetic is exact, the rounding of
    IEEE doubles, infinities and NaN are not part of this first model; the vector
    similarity is embedded a second time with the rounding of the doubles, and the scoring
    of one pair a second time on numbers with NaN;
  \<^item> a TypeScript \<^verbatim>\<open>string\<close> is a \<^typ>\<open>string\<close>; the case tables of the engine are
    not part of the repository, so \<^verbatim>\<open>toLowerCase\<close> and \<^verbatim>\<open>toUpperCase\<close> are given on
    the ASCII letters only, and the function that compares tags takes the lower-casing as
    a parameter;
  \<^item> an interface is a record; a field whose name is shared by two interfaces, or clashes
    with a constant of HOL, carries the interface's name as a suffix, and a parameter
    whose name is also the name of a field carries a prime;
  \<^item> a JavaScript \<^verbatim>\<open>Set\<close> is the list of its elements in insertion order, a
    \<^verbatim>\<open>Map\<close> is the association list of its entries in insertion order;
  \<^item> \<^verbatim>\<open>throw new Error(msg)\<close> is the value \<open>Inl (Error msg)\<close> of a sum type.
\<close>

subsection \<open>Types (\<^verbatim>\<open>types.ts\<close>)\<close>

record VibeVector =
  melancholy :: real
  intimacy :: real
  intensity :: real
  hope :: real
  tension :: real
  warmth :: real
  nostalgia :: real
  eeriness :: real
  pace :: real

datatype BookGenre =
    Literary_Fiction
  | Romance
  | Fantasy
  | Science_Fiction
  | Mystery_Thriller
  | Horror_Gothic
  | Dark_Academia
  | Classics
  | Contemporary_Fiction
  | Historical_Fiction
  | Young_Adult

record Book =
  id_Book :: string
  title_Book :: string
  author :: string
  coverImageUrl :: string
  vibeTags_Book :: "string list"
  vibeVector :: VibeVector
  vibeBlurb :: string
  genre :: "BookGenre option"

record AudioFeatures =
  energy :: real
  valence :: real
  tempo :: real
  acousticness :: real
  danceability :: real

record Song =
  id_Song :: string
  title_Song :: string
  artist :: string
  spotifyUrl :: string
  previewUrl :: "string option"
  vibeTags_Song :: "string list"
  audio :: AudioFeatures
  moodBlurb :: string

datatype FactorType = positive | negative | neutral

record ScoringFactor =
  factor :: string
  contribution :: real
  type_Factor :: FactorType

record MatchResult =
  song :: Song
  totalScore :: real
  tagScore :: real
  vectorScore :: real
  penaltyScore :: real
  topFactors :: "ScoringFactor list"

datatype error = Error string

subsection \<open>The JavaScript library functions the module calls\<close>

text \<open>
  \<^verbatim>\<open>String.prototype.toLowerCase\<close> and \<^verbatim>\<open>toUpperCase\<close> on strings of ASCII characters,
  where they change the 26 letters and nothing else. On other characters the engine follows
  the Unicode case tables (one character may become two), which these two definitions do
  not describe.
\<close>

definition toLowerCase_char :: "char \<Rightarrow> char" where
  "toLowerCase_char c =
     (let n = (of_char c :: nat) in if 65 \<le> n \<and> n \<le> 90 then char_of (n + 32) else c)"

definition toUpperCase_char :: "char \<Rightarrow> char" where
  "toUpperCase_char c =
     (let n = (of_char c :: nat) in if 97 \<le> n \<and> n \<le> 122 then char_of (n - 32) else c)"

definition toLowerCase :: "string \<Rightarrow> string" where
  "toLowerCase s = map toLowerCase_char s"

definition toUpperCase :: "string \<Rightarrow> string" where
  "toUpperCase s = map toUpperCase_char s"

text \<open>
  \<^verbatim>\<open>new Set(xs)\<close>: the elements are added one by one; an element already present is
  not added again, a new one goes to the end of the insertion order. \<^verbatim>\<open>s.has(x)\<close> is
  \<open>x \<in> set s\<close> and \<^verbatim>\<open>s.size\<close> is \<open>length s\<close>.
\<close>

definition Set_add :: "'a list \<Rightarrow> 'a \<Rightarrow> 'a list" where
  "Set_add s x = (if x \<in> set s then s else s @ [x])"

definition new_Set :: "'a list \<Rightarrow> 'a list" where
  "new_Set xs = foldl Set_add [] xs"

text \<open>\<^verbatim>\<open>Array.prototype.join\<close>.\<close>

fun join :: "string \<Rightarrow> string list \<Rightarrow> string" where
  "join sep [] = []"
| "join sep [x] = x"
| "join sep (x # y # ys) = x @ sep @ join sep (y # ys)"

text \<open>
  \<^verbatim>\<open>Array.prototype.sort(cmp)\<close>: a stable sort (ECMAScript 2019); \<open>cmp a b\<close> negative
  or zero keeps \<open>a\<close> before \<open>b\<close>. Modelled as the stable insertion sort: the elements are
  inserted from the last to the first, each before the first element it does not have to
  follow.
\<close>

fun insert_by :: "('a \<Rightarrow> 'a \<Rightarrow> real) \<Rightarrow> 'a \<Rightarrow> 'a list \<Rightarrow> 'a list" where
  "insert_by cmp x [] = [x]"
| "insert_by cmp x (y # ys) =
     (if cmp x y \<le> 0 then x # y # ys else y # insert_by cmp x ys)"

definition sort_by :: "('a \<Rightarrow> 'a \<Rightarrow> real) \<Rightarrow> 'a list \<Rightarrow> 'a list" where
  "sort_by cmp xs = foldr (insert_by cmp) xs []"

subsection \<open>The matching module (\<^verbatim>\<open>matchThemeSong.ts\<close>)\<close>

definition TAG_WEIGHT :: real where
  "TAG_WEIGHT = 0.55"

definition VECTOR_WEIGHT :: real where
  "VECTOR_WEIGHT = 0.35"

definition deriveVibeVector :: "AudioFeatures \<Rightarrow> VibeVector" where
  "deriveVibeVector a =
     (let warmthCalc = acousticness a * 0.5 + valence a * 0.3 + (1 - energy a) * 0.2
      in \<lparr> melancholy = 1 - valence a,
           intimacy = acousticness a * 0.6 + (1 - energy a) * 0.4,
           intensity = energy a,
           hope = valence a * 0.7 + energy a * 0.3,
           tension = energy a * 0.5 + (1 - valence a) * 0.5,
           warmth = warmthCalc,
           nostalgia = acousticness a * 0.4 + (1 - tempo a) * 0.3 + (1 - energy a) * 0.3,
           eeriness = (1 - valence a) * 0.5 + (1 - danceability a) * 0.3 + (1 - warmthCalc) * 0.2,
           pace = tempo a * 0.6 + energy a * 0.4 \<rparr>)"

text \<open>
  \<^verbatim>\<open>jaccardSimilarity\<close>, with the engine's \<^verbatim>\<open>toLowerCase\<close> as the parameter \<open>lower\<close>
  and the tags of any type, and then at the lower-casing of ASCII strings.
\<close>

definition jaccardSimilarity_by :: "('a \<Rightarrow> 'a) \<Rightarrow> 'a list \<Rightarrow> 'a list \<Rightarrow> real" where
  "jaccardSimilarity_by lower tags1 tags2 =
     (let set1 = new_Set (map lower tags1);
          set2 = new_Set (map lower tags2);
          intersection = new_Set (filter (\<lambda>x. x \<in> set set2) set1);
          union = new_Set (set1 @ set2)
      in if length union = 0 then 0
         else real (length intersection) / real (length union))"

definition jaccardSimilarity :: "string list \<Rightarrow> string list \<Rightarrow> real" where
  "jaccardSimilarity tags1 tags2 = jaccardSimilarity_by toLowerCase tags1 tags2"

definition getOverlappingTags :: "string list \<Rightarrow> string list \<Rightarrow> string list" where
  "getOverlappingTags tags1 tags2 =
     (let set1 = new_Set (map toLowerCase tags1);
          set2 = new_Set (map toLowerCase tags2)
      in filter (\<lambda>x. x \<in> set set2) set1)"

text \<open>
  The type \<^verbatim>\<open>keyof VibeVector\<close> is the union of the nine field names; \<open>vget v k\<close> is
  \<^verbatim>\<open>v[k]\<close> and \<open>key_name k\<close> the string the key is.
\<close>

datatype VibeKey =
    K_melancholy | K_intimacy | K_intensity | K_hope | K_tension
  | K_warmth | K_nostalgia | K_eeriness | K_pace

fun vget :: "VibeVector \<Rightarrow> VibeKey \<Rightarrow> real" where
  "vget v K_melancholy = melancholy v"
| "vget v K_intimacy = intimacy v"
| "vget v K_intensity = intensity v"
| "vget v K_hope = hope v"
| "vget v K_tension = tension v"
| "vget v K_warmth = warmth v"
| "vget v K_nostalgia = nostalgia v"
| "vget v K_eeriness = eeriness v"
| "vget v K_pace = pace v"

fun key_name :: "VibeKey \<Rightarrow> string" where
  "key_name K_melancholy = ''melancholy''"
| "key_name K_intimacy = ''intimacy''"
| "key_name K_intensity = ''intensity''"
| "key_name K_hope = ''hope''"
| "key_name K_tension = ''tension''"
| "key_name K_warmth = ''warmth''"
| "key_name K_nostalgia = ''nostalgia''"
| "key_name K_eeriness = ''eeriness''"
| "key_name K_pace = ''pace''"

definition keys :: "VibeKey list" where
  "keys = [K_melancholy, K_intimacy, K_intensity, K_hope, K_tension,
           K_warmth, K_nostalgia, K_eeriness, K_pace]"

text \<open>
  The loop of \<^verbatim>\<open>cosineSimilarity\<close> updates the three accumulators
  \<open>(dotProduct, magnitude1, magnitude2)\<close> once for each key.
\<close>

definition cosine_step :: "VibeVector \<Rightarrow> VibeVector \<Rightarrow> real \<times> real \<times> real \<Rightarrow> VibeKey
    \<Rightarrow> real \<times> real \<times> real" where
  "cosine_step vec1 vec2 acc key =
     (case acc of (dotProduct, magnitude1, magnitude2) \<Rightarrow>
        (dotProduct + vget vec1 key * vget vec2 key,
         magnitude1 + (vget vec1 key)\<^sup>2,
         magnitude2 + (vget vec2 key)\<^sup>2))"

definition cosineSimilarity :: "VibeVector \<Rightarrow> VibeVector \<Rightarrow> real" where
  "cosineSimilarity vec1 vec2 =
     (case foldl (cosine_step vec1 vec2) (0, 0, 0) keys of
        (dotProduct, m1, m2) \<Rightarrow>
          (let magnitude1 = sqrt m1; magnitude2 = sqrt m2
           in if magnitude1 = 0 \<or> magnitude2 = 0 then 0
              else dotProduct / (magnitude1 * magnitude2)))"

record DimensionMatch =
  dimension :: VibeKey
  bookValue :: real
  songValue :: real
  similarity :: real

definition getTopMatchingDimensions :: "VibeVector \<Rightarrow> VibeVector \<Rightarrow> nat \<Rightarrow> DimensionMatch list" where
  "getTopMatchingDimensions bookVec songVec n =
     (let similarities =
            map (\<lambda>key. \<lparr> dimension = key,
                         bookValue = vget bookVec key,
                         songValue = vget songVec key,
                         similarity = 1 - \<bar>vget bookVec key - vget songVec key\<bar> \<rparr>) keys
      in take n (sort_by (\<lambda>a b. similarity b - similarity a) similarities))"

record Penalties =
  total :: real
  factors :: "ScoringFactor list"

text \<open>
  One firing rule of \<^verbatim>\<open>calculatePenalties\<close>: \<^verbatim>\<open>total += penalty\<close> and
  \<^verbatim>\<open>factors.push({factor, contribution: penalty, type: 'negative'})\<close>.
\<close>

definition penalize :: "real \<Rightarrow> string \<Rightarrow> Penalties \<Rightarrow> Penalties" where
  "penalize penalty label p =
     \<lparr> total = total p + penalty,
       factors = factors p @ [\<lparr> factor = label, contribution = penalty, type_Factor = negative \<rparr>] \<rparr>"

definition calculatePenalties :: "Book \<Rightarrow> VibeVector \<Rightarrow> AudioFeatures \<Rightarrow> Penalties" where
  "calculatePenalties book songVec audio' =
     (let p0 = \<lparr> total = 0, factors = [] \<rparr>;
          p1 = (if melancholy (vibeVector book) > 0.7 \<and> valence audio' > 0.7
                then penalize (- 0.10) ''Song too upbeat for melancholic book'' p0 else p0);
          p2 = (if tension (vibeVector book) > 0.7 \<and> energy audio' < 0.3
                then penalize (- 0.05) ''Song too mellow for high-tension book'' p1 else p1);
          p3 = (if eeriness (vibeVector book) > 0.7 \<and> warmth songVec > 0.7
                then penalize (- 0.08) ''Song too warm for eerie book'' p2 else p2);
          p4 = (if hope (vibeVector book) > 0.7 \<and> valence audio' < 0.2
                then penalize (- 0.07) ''Song too sad for hopeful book'' p3 else p3);
          p5 = (if intensity (vibeVector book) > 0.8 \<and> energy audio' < 0.25
                then penalize (- 0.05) ''Song too mellow for intense book'' p4 else p4)
      in p5)"

text \<open>\<^verbatim>\<open>s.charAt(0).toUpperCase() + s.slice(1)\<close>.\<close>

definition capitalize :: "string \<Rightarrow> string" where
  "capitalize s = toUpperCase (take 1 s) @ drop 1 s"

definition dimension_factors :: "real \<Rightarrow> DimensionMatch list \<Rightarrow> ScoringFactor list" where
  "dimension_factors vectorScore' topDimensions =
     map (\<lambda>dim.
            (let dimLabel = capitalize (key_name (dimension dim))
             in \<lparr> factor = ''Strong '' @ toLowerCase dimLabel @ '' alignment'',
                  contribution = vectorScore' * VECTOR_WEIGHT * 0.3,
                  type_Factor = positive \<rparr>))
         (filter (\<lambda>dim. similarity dim > 0.8) topDimensions)"

definition generateScoringFactors ::
    "Book \<Rightarrow> Song \<Rightarrow> VibeVector \<Rightarrow> real \<Rightarrow> real \<Rightarrow> ScoringFactor list \<Rightarrow> ScoringFactor list" where
  "generateScoringFactors book song' songVec tagScore' vectorScore' penaltyFactors =
     (let overlappingTags = getOverlappingTags (vibeTags_Book book) (vibeTags_Song song');
          factors1 =
            (if length overlappingTags > 0
             then [\<lparr> factor = ''Shared vibes: '' @ join '', '' (take 3 overlappingTags),
                      contribution = tagScore' * TAG_WEIGHT,
                      type_Factor = positive \<rparr>]
             else []);
          topDimensions = getTopMatchingDimensions (vibeVector book) songVec 2;
          factors2 = factors1 @ dimension_factors vectorScore' topDimensions;
          factors3 = factors2 @ penaltyFactors
      in take 3 (sort_by (\<lambda>a b. \<bar>contribution b\<bar> - \<bar>contribution a\<bar>) factors3))"

definition getMatchResultForSong :: "Book \<Rightarrow> Song \<Rightarrow> MatchResult" where
  "getMatchResultForSong book song' =
     (let songVibeVector = deriveVibeVector (audio song');
          tagScore = jaccardSimilarity (vibeTags_Book book) (vibeTags_Song song');
          vectorScore = cosineSimilarity (vibeVector book) songVibeVector;
          penalties = calculatePenalties book songVibeVector (audio song');
          totalScore = (tagScore * TAG_WEIGHT) + (vectorScore * VECTOR_WEIGHT) + total penalties;
          topFactors = generateScoringFactors book song' songVibeVector tagScore vectorScore
                         (factors penalties)
      in \<lparr> song = song',
           totalScore = totalScore,
           tagScore = tagScore,
           vectorScore = vectorScore,
           penaltyScore = total penalties,
           topFactors = topFactors \<rparr>)"

text \<open>
  The body of the loop of \<^verbatim>\<open>matchThemeSong\<close>; \<open>bestMatch\<close> is \<open>None\<close> where the
  source has \<^verbatim>\<open>null\<close>.
\<close>

definition matchThemeSong_step :: "Book \<Rightarrow> MatchResult option \<Rightarrow> Song \<Rightarrow> MatchResult option" where
  "matchThemeSong_step book bestMatch song' =
     (let songVibeVector = deriveVibeVector (audio song');
          tagScore = jaccardSimilarity (vibeTags_Book book) (vibeTags_Song song');
          vectorScore = cosineSimilarity (vibeVector book) songVibeVector;
          penalties = calculatePenalties book songVibeVector (audio song');
          totalScore = (tagScore * TAG_WEIGHT) + (vectorScore * VECTOR_WEIGHT) + total penalties;
          topFactors = generateScoringFactors book song' songVibeVector tagScore vectorScore
                         (factors penalties);
          result = \<lparr> song = song',
                     totalScore = totalScore,
                     tagScore = tagScore,
                     vectorScore = vectorScore,
                     penaltyScore = total penalties,
                     topFactors = topFactors \<rparr>
      in case bestMatch of
           None \<Rightarrow> Some result
         | Some best \<Rightarrow> if totalScore > MatchResult.totalScore best then Some result else bestMatch)"

definition matchThemeSong :: "Book \<Rightarrow> Song list \<Rightarrow> error + MatchResult" where
  "matchThemeSong book songs =
     (case foldl (matchThemeSong_step book) None songs of
        None \<Rightarrow> Inl (Error ''No songs available for matching'')
      | Some bestMatch \<Rightarrow> Inr bestMatch)"

definition getTopMatches_step :: "Book \<Rightarrow> MatchResult list \<Rightarrow> Song \<Rightarrow> MatchResult list" where
  "getTopMatches_step book results song' =
     (let songVibeVector = deriveVibeVector (audio song');
          tagScore = jaccardSimilarity (vibeTags_Book book) (vibeTags_Song song');
          vectorScore = cosineSimilarity (vibeVector book) songVibeVector;
          penalties = calculatePenalties book songVibeVector (audio song');
          totalScore = (tagScore * TAG_WEIGHT) + (vectorScore * VECTOR_WEIGHT) + total penalties;
          topFactors = generateScoringFactors book song' songVibeVector tagScore vectorScore
                         (factors penalties)
      in results @ [\<lparr> song = song',
                       totalScore = totalScore,
                       tagScore = tagScore,
                       vectorScore = vectorScore,
                       penaltyScore = total penalties,
                       topFactors = topFactors \<rparr>])"

definition getTopMatches :: "Book \<Rightarrow> Song list \<Rightarrow> nat \<Rightarrow> MatchResult list" where
  "getTopMatches book songs n =
     (let results = foldl (getTopMatches_step book) [] songs
      in take n (sort_by (\<lambda>a b. totalScore b - totalScore a) results))"

record ScoredPair =
  book_Pair :: Book
  song_Pair :: Song
  result_Pair :: MatchResult

text \<open>The inner and the outer loop that fill \<^verbatim>\<open>allPairs\<close>.\<close>

definition allPairs_song :: "Book \<Rightarrow> ScoredPair list \<Rightarrow> Song \<Rightarrow> ScoredPair list" where
  "allPairs_song book allPairs song' =
     (let songVibeVector = deriveVibeVector (audio song');
          tagScore = jaccardSimilarity (vibeTags_Book book) (vibeTags_Song song');
          vectorScore = cosineSimilarity (vibeVector book) songVibeVector;
          penalties = calculatePenalties book songVibeVector (audio song');
          totalScore = (tagScore * TAG_WEIGHT) + (vectorScore * VECTOR_WEIGHT) + total penalties;
          topFactors = generateScoringFactors book song' songVibeVector tagScore vectorScore
                         (factors penalties)
      in allPairs @ [\<lparr> book_Pair = book,
                        song_Pair = song',
                        result_Pair = \<lparr> song = song',
                                        totalScore = totalScore,
                                        tagScore = tagScore,
                                        vectorScore = vectorScore,
                                        penaltyScore = total penalties,
                                        topFactors = topFactors \<rparr> \<rparr>])"

definition allPairs_book :: "Song list \<Rightarrow> ScoredPair list \<Rightarrow> Book \<Rightarrow> ScoredPair list" where
  "allPairs_book songs allPairs book = foldl (allPairs_song book) allPairs songs"

text \<open>\<^verbatim>\<open>Map.prototype.set\<close>: the value of a key already present is replaced in place, a
  new key is entered at the end.\<close>

fun Map_set :: "('k \<times> 'v) list \<Rightarrow> 'k \<Rightarrow> 'v \<Rightarrow> ('k \<times> 'v) list" where
  "Map_set [] k v = [(k, v)]"
| "Map_set (e # m) k v = (if fst e = k then (k, v) # m else e # Map_set m k v)"

record Assignment =
  assignments :: "(string \<times> MatchResult) list"
  usedSongIds :: "string list"
  assignedBookIds :: "string list"

text \<open>
  The greedy loop over the sorted pairs; \<open>n\<close> is \<^verbatim>\<open>books.length\<close>. The first branch is
  the \<^verbatim>\<open>continue\<close>, the second the \<^verbatim>\<open>break\<close>.
\<close>

fun assign_loop :: "nat \<Rightarrow> Assignment \<Rightarrow> ScoredPair list \<Rightarrow> Assignment" where
  "assign_loop n st [] = st"
| "assign_loop n st (pair # rest) =
     (let bookId = id_Book (book_Pair pair);
          songId = id_Song (song_Pair pair)
      in if bookId \<in> set (assignedBookIds st) \<or> songId \<in> set (usedSongIds st)
         then assign_loop n st rest
         else let st' = \<lparr> assignments = Map_set (assignments st) bookId (result_Pair pair),
                          usedSongIds = Set_add (usedSongIds st) songId,
                          assignedBookIds = Set_add (assignedBookIds st) bookId \<rparr>
              in if length (assignedBookIds st') = n then st'
                 else assign_loop n st' rest)"

definition matchAllBooksUniquely :: "Book list \<Rightarrow> Song list \<Rightarrow> (string \<times> MatchResult) list" where
  "matchAllBooksUniquely books songs =
     (let allPairs = foldl (allPairs_book songs) [] books;
          sortedPairs = sort_by (\<lambda>a b. totalScore (result_Pair b) - totalScore (result_Pair a)) allPairs
      in assignments
           (assign_loop (length books)
              \<lparr> assignments = [], usedSongIds = [], assignedBookIds = [] \<rparr> sortedPairs))"

subsection \<open>Concrete inputs\<close>

text \<open>The audio features of the repository's test \<^verbatim>\<open>derives high melancholy from low valence\<close>.\<close>

definition audio_example :: AudioFeatures where
  "audio_example =
     \<lparr> energy = 0.5, valence = 0.1, tempo = 0.5, acousticness = 0.5, danceability = 0.5 \<rparr>"

text \<open>The book and the first song of the repository's tests, and variants of them.\<close>

definition testBook :: Book where
  "testBook =
     \<lparr> id_Book = ''test-book'', title_Book = ''Test Book'', author = ''Test Author'',
       coverImageUrl = ''/test.jpg'',
       vibeTags_Book = [''melancholic'', ''nostalgic'', ''intimate'', ''tender''],
       vibeVector = \<lparr> melancholy = 0.8, intimacy = 0.7, intensity = 0.4, hope = 0.3,
                      tension = 0.4, warmth = 0.5, nostalgia = 0.9, eeriness = 0.2, pace = 0.3 \<rparr>,
       vibeBlurb = ''A melancholic and nostalgic test book.'', genre = None \<rparr>"

definition perfectMatch :: Song where
  "perfectMatch =
     \<lparr> id_Song = ''perfect-match'', title_Song = ''Perfect Match Song'', artist = ''Test Artist 1'',
       spotifyUrl = ''https://spotify.com/test1'', previewUrl = None,
       vibeTags_Song = [''melancholic'', ''nostalgic'', ''intimate'', ''folk''],
       audio = \<lparr> energy = 0.25, valence = 0.2, tempo = 0.3, acousticness = 0.9,
                 danceability = 0.25 \<rparr>,
       moodBlurb = ''A perfect matching song.'' \<rparr>"

definition melancholicBook :: Book where
  "melancholicBook = testBook \<lparr> vibeVector := (vibeVector testBook) \<lparr> melancholy := 0.85 \<rparr> \<rparr>"

definition happyAudio :: AudioFeatures where
  "happyAudio =
     \<lparr> energy = 0.5, valence = 0.8, tempo = 0.5, acousticness = 0.5, danceability = 0.5 \<rparr>"

definition eerieBook :: Book where
  "eerieBook = testBook \<lparr> vibeVector := (vibeVector testBook) \<lparr> melancholy := 0.85, eeriness := 0.8 \<rparr> \<rparr>"

definition warmAudio :: AudioFeatures where
  "warmAudio =
     \<lparr> energy = 0.5, valence = 0.8, tempo = 0.5, acousticness = 1, danceability = 0.5 \<rparr>"

definition perfectMatchTwin :: Song where
  "perfectMatchTwin = perfectMatch \<lparr> id_Song := ''perfect-match-2'' \<rparr>"

subsection \<open>The rule table of the penalties\<close>

text \<open>
  The specification presents \<^verbatim>\<open>calculatePenalties\<close> as an ordered table of rules, each a
  guard and its constant. \<open>fired b v a\<close> lists, rule by rule, whether the guard holds.
\<close>

definition penalty_rules :: "((Book \<Rightarrow> VibeVector \<Rightarrow> AudioFeatures \<Rightarrow> bool) \<times> real) list" where
  "penalty_rules =
     [(\<lambda>b v a. melancholy (vibeVector b) > 0.7 \<and> valence a > 0.7, - 0.10),
      (\<lambda>b v a. tension (vibeVector b) > 0.7 \<and> energy a < 0.3, - 0.05),
      (\<lambda>b v a. eeriness (vibeVector b) > 0.7 \<and> warmth v > 0.7, - 0.08),
      (\<lambda>b v a. hope (vibeVector b) > 0.7 \<and> valence a < 0.2, - 0.07),
      (\<lambda>b v a. intensity (vibeVector b) > 0.8 \<and> energy a < 0.25, - 0.05)]"

definition fired :: "Book \<Rightarrow> VibeVector \<Rightarrow> AudioFeatures \<Rightarrow> bool list" where
  "fired b v a = map (\<lambda>r. fst r b v a) penalty_rules"

subsection \<open>Dot product and Euclidean norm\<close>

text \<open>The two notions the specification states \<^verbatim>\<open>cosineSimilarity\<close> in, over the nine
  dimensions.\<close>

definition dot_Vibe :: "VibeVector \<Rightarrow> VibeVector \<Rightarrow> real" where
  "dot_Vibe v w = (\<Sum>k\<leftarrow>keys. vget v k * vget w k)"

definition norm_Vibe :: "VibeVector \<Rightarrow> real" where
  "norm_Vibe v = sqrt (\<Sum>k\<leftarrow>keys. (vget v k)\<^sup>2)"




subsection \<open>Vector similarity in double precision\<close>



text \<open>
  Rounding to the nearest double, ties to the even significand: 53 significant bits, the
  least exponent of a normal number \<open>-1022\<close>, below it the multiples of \<open>2\<^sup>-\<^sup>1\<^sup>0\<^sup>7\<^sup>4\<close>.
  \<open>rne\<close> rounds a real to the nearest integer, ties to even; \<open>ulp_exp x\<close> is the exponent of the
  spacing of the doubles around \<open>x\<close>. Overflow to \<^verbatim>\<open>Infinity\<close> is left out: it does not occur
  on vectors with components in \<open>[-1,1]\<close>. The language leaves the accuracy of \<^verbatim>\<open>**\<close> to the
  engine; here it is rounded like the product.
\<close>

definition rne :: "real \<Rightarrow> int" where
  "rne x = (let n = \<lfloor>x\<rfloor>; d = x - of_int n
            in if d < 1 / 2 then n else if 1 / 2 < d then n + 1
               else if even n then n else n + 1)"

definition ulp_exp :: "real \<Rightarrow> int" where
  "ulp_exp x = max \<lfloor>log 2 \<bar>x\<bar>\<rfloor> (- 1022) - 52"

definition fl :: "real \<Rightarrow> real" where
  "fl x = (if x = 0 then 0 else of_int (rne (x / 2 powi ulp_exp x)) * 2 powi ulp_exp x)"



subsection \<open>The greedy assignment, as the specification states it\<close>

text \<open>
  The specification describes \<^verbatim>\<open>matchAllBooksUniquely\<close> in these terms: the scored pair
  of a book and a song; the enumeration of all pairs, book-major and song-minor; the
  comparison of two pairs by total score, descending; a pair is skipped when its book or
  its song is already committed, and committed otherwise; the walk starts from no
  assignment at all.
\<close>

definition scoredPair :: "Book \<Rightarrow> Song \<Rightarrow> ScoredPair" where
  "scoredPair b s = \<lparr> book_Pair = b, song_Pair = s, result_Pair = getMatchResultForSong b s \<rparr>"

definition enumeratePairs :: "Book list \<Rightarrow> Song list \<Rightarrow> ScoredPair list" where
  "enumeratePairs books songs = concat (map (\<lambda>b. map (scoredPair b) songs) books)"

definition committed :: "Assignment \<Rightarrow> ScoredPair \<Rightarrow> bool" where
  "committed st pair \<longleftrightarrow>
     id_Book (book_Pair pair) \<in> set (assignedBookIds st) \<or>
     id_Song (song_Pair pair) \<in> set (usedSongIds st)"

definition commit :: "Assignment \<Rightarrow> ScoredPair \<Rightarrow> Assignment" where
  "commit st pair =
     \<lparr> assignments = Map_set (assignments st) (id_Book (book_Pair pair)) (result_Pair pair),
       usedSongIds = Set_add (usedSongIds st) (id_Song (song_Pair pair)),
       assignedBookIds = Set_add (assignedBookIds st) (id_Book (book_Pair pair)) \<rparr>"

definition walk_step :: "Assignment \<Rightarrow> ScoredPair \<Rightarrow> Assignment" where
  "walk_step st pair = (if committed st pair then st else commit st pair)"

definition no_assignment :: Assignment where
  "no_assignment = \<lparr> assignments = [], usedSongIds = [], assignedBookIds = [] \<rparr>"

definition byScore :: "ScoredPair \<Rightarrow> ScoredPair \<Rightarrow> real" where
  "byScore a b = totalScore (result_Pair b) - totalScore (result_Pair a)"

text \<open>The invariant of the greedy loop: the keys of the map are the assigned book
  identifiers, the songs of its values are the used song identifiers, in the same order,
  and neither list repeats an identifier.\<close>

definition assignment_inv :: "Assignment \<Rightarrow> bool" where
  "assignment_inv st \<longleftrightarrow>
     map fst (assignments st) = assignedBookIds st \<and>
     map (\<lambda>e. id_Song (song (snd e))) (assignments st) = usedSongIds st \<and>
     distinct (assignedBookIds st) \<and> distinct (usedSongIds st)"

text \<open>A second book, the test book under another identifier.\<close>

definition secondBook :: Book where
  "secondBook = testBook \<lparr> id_Book := ''second-book'' \<rparr>"

subsection \<open>The composition of a result\<close>

text \<open>What the specification promises of every result: the total is the weighted sum of
  the three component scores, and the factors are at most three, the largest absolute
  contribution first.\<close>

definition well_composed :: "MatchResult \<Rightarrow> bool" where
  "well_composed r \<longleftrightarrow>
     totalScore r = tagScore r * 0.55 + vectorScore r * 0.35 + penaltyScore r \<and>
     length (topFactors r) \<le> 3 \<and>
     sorted_wrt (\<lambda>a b. \<bar>contribution b\<bar> \<le> \<bar>contribution a\<bar>) (topFactors r)"

text \<open>
  The factors before the sort and the cut, as the specification lists them: the factor of the
  shared tags if there are any, with contribution \<open>tagScore * 0.55\<close>; one factor
  \<open>vectorScore * 0.35 * 0.3\<close> for each of the two best aligned dimensions whose similarity is
  above 0.8; then every penalty factor. \<open>byMagnitude\<close> is the comparator of the sort.
\<close>

definition byMagnitude :: "ScoringFactor \<Rightarrow> ScoringFactor \<Rightarrow> real" where
  "byMagnitude a b = \<bar>contribution b\<bar> - \<bar>contribution a\<bar>"

definition candidate_factors :: "Book \<Rightarrow> Song \<Rightarrow> ScoringFactor list" where
  "candidate_factors b s =
     (let v = deriveVibeVector (audio s);
          shared = getOverlappingTags (vibeTags_Book b) (vibeTags_Song s)
      in (if shared = [] then []
          else [\<lparr> factor = ''Shared vibes: '' @ join '', '' (take 3 shared),
                   contribution = jaccardSimilarity (vibeTags_Book b) (vibeTags_Song s) * 0.55,
                   type_Factor = positive \<rparr>])
         @ map (\<lambda>d. \<lparr> factor = ''Strong '' @ key_name (dimension d) @ '' alignment'',
                        contribution = cosineSimilarity (vibeVector b) v * 0.35 * 0.3,
                        type_Factor = positive \<rparr>)
               (filter (\<lambda>d. 0.8 < similarity d) (getTopMatchingDimensions (vibeVector b) v 2))
         @ factors (calculatePenalties b v (audio s)))"

text \<open>
  A tense book and a calm song: the tags agree, the vectors agree in every dimension but
  the tension, and the rule of the high-tension book fires.
\<close>

definition calmAudio :: AudioFeatures where
  "calmAudio = \<lparr> energy = 0, valence = 1, tempo = 0, acousticness = 0, danceability = 1 \<rparr>"

definition calmSong :: Song where
  "calmSong = perfectMatch \<lparr> id_Song := ''calm-song'', vibeTags_Song := [''calm''],
                             audio := calmAudio \<rparr>"

definition tenseBook :: Book where
  "tenseBook =
     testBook \<lparr> id_Book := ''tense-book'', vibeTags_Book := [''Calm''],
                vibeVector := (deriveVibeVector calmAudio) \<lparr> tension := 0.8 \<rparr> \<rparr>"

subsection \<open>The module at run time\<close>

text \<open>
  TypeScript's types are erased at run time, and the books and songs come from JSON files:
  an object can lack a property its interface requires. This second model follows
  \<^verbatim>\<open>getMatchResultForSong\<close> and the functions it calls on such objects.

  A JavaScript number is a real or \<^verbatim>\<open>NaN\<close> here. The module divides once, in
  \<^verbatim>\<open>cosineSimilarity\<close>, behind a guard that returns when a magnitude is zero, so the
  infinities do not arise; \<open>x / 0\<close> is given the value \<^verbatim>\<open>NaN\<close> and never computed.
  Arithmetic on \<^verbatim>\<open>NaN\<close> gives \<^verbatim>\<open>NaN\<close> and every comparison with \<^verbatim>\<open>NaN\<close> is false.
  The functions that take the book or the song in the source take here the properties
  they read from it, the tag lists and the vibe vector, which \<^verbatim>\<open>getMatchResultForSong\<close>
  has found present.

  The objects of this model are the well-formed ones with properties left out: a tag that
  is present is a string and a numeric property that is present is a number. Objects that
  are malformed in another way (a tag that is not a string, \<^verbatim>\<open>null\<close>) are outside it.
\<close>

datatype number = Num real | NaN

instantiation number :: "{plus, minus, times, inverse, abs, ord}"
begin

fun plus_number :: "number \<Rightarrow> number \<Rightarrow> number" where
  "plus_number (Num x) (Num y) = Num (x + y)"
| "plus_number _ _ = NaN"

fun minus_number :: "number \<Rightarrow> number \<Rightarrow> number" where
  "minus_number (Num x) (Num y) = Num (x - y)"
| "minus_number _ _ = NaN"

fun times_number :: "number \<Rightarrow> number \<Rightarrow> number" where
  "times_number (Num x) (Num y) = Num (x * y)"
| "times_number _ _ = NaN"

fun divide_number :: "number \<Rightarrow> number \<Rightarrow> number" where
  "divide_number (Num x) (Num y) = (if y = 0 then NaN else Num (x / y))"
| "divide_number _ _ = NaN"

fun inverse_number :: "number \<Rightarrow> number" where
  "inverse_number (Num x) = (if x = 0 then NaN else Num (1 / x))"
| "inverse_number NaN = NaN"

fun abs_number :: "number \<Rightarrow> number" where
  "abs_number (Num x) = Num \<bar>x\<bar>"
| "abs_number NaN = NaN"

fun less_number :: "number \<Rightarrow> number \<Rightarrow> bool" where
  "less_number (Num x) (Num y) \<longleftrightarrow> x < y"
| "less_number _ _ \<longleftrightarrow> False"

fun less_eq_number :: "number \<Rightarrow> number \<Rightarrow> bool" where
  "less_eq_number (Num x) (Num y) \<longleftrightarrow> x \<le> y"
| "less_eq_number _ _ \<longleftrightarrow> False"

instance ..

end











































section \<open>Properties\<close>

subsection \<open>The derived vibe vector\<close>

text \<open>
  Claim C7. \<^verbatim>\<open>deriveVibeVector\<close> is a function of its argument alone, defined on every
  \<open>AudioFeatures\<close> value; each of the nine dimensions is the fixed linear combination of
  the source, the eeriness being computed from the very warmth the result carries; and
  when the five audio features lie in \<open>[0, 1]\<close>, so does every dimension of the result.
  Numbers are exact reals here, so every value is finite.
\<close>

theorem deriveVibeVector_formulas_range:
  "melancholy (deriveVibeVector a) = 1 - valence a \<and>
   intimacy (deriveVibeVector a) = acousticness a * 0.6 + (1 - energy a) * 0.4 \<and>
   intensity (deriveVibeVector a) = energy a \<and>
   hope (deriveVibeVector a) = valence a * 0.7 + energy a * 0.3 \<and>
   tension (deriveVibeVector a) = energy a * 0.5 + (1 - valence a) * 0.5 \<and>
   warmth (deriveVibeVector a) = acousticness a * 0.5 + valence a * 0.3 + (1 - energy a) * 0.2 \<and>
   nostalgia (deriveVibeVector a) =
     acousticness a * 0.4 + (1 - tempo a) * 0.3 + (1 - energy a) * 0.3 \<and>
   eeriness (deriveVibeVector a) =
     (1 - valence a) * 0.5 + (1 - danceability a) * 0.3 + (1 - warmth (deriveVibeVector a)) * 0.2 \<and>
   pace (deriveVibeVector a) = tempo a * 0.6 + energy a * 0.4 \<and>
   (0 \<le> energy a \<and> energy a \<le> 1 \<and> 0 \<le> valence a \<and> valence a \<le> 1 \<and>
    0 \<le> tempo a \<and> tempo a \<le> 1 \<and> 0 \<le> acousticness a \<and> acousticness a \<le> 1 \<and>
    0 \<le> danceability a \<and> danceability a \<le> 1 \<longrightarrow>
    (\<forall>k \<in> set keys. 0 \<le> vget (deriveVibeVector a) k \<and> vget (deriveVibeVector a) k \<le> 1))"
proof -
  have sel: "melancholy (deriveVibeVector a) = 1 - valence a"
    "intimacy (deriveVibeVector a) = acousticness a * 0.6 + (1 - energy a) * 0.4"
    "intensity (deriveVibeVector a) = energy a"
    "hope (deriveVibeVector a) = valence a * 0.7 + energy a * 0.3"
    "tension (deriveVibeVector a) = energy a * 0.5 + (1 - valence a) * 0.5"
    "warmth (deriveVibeVector a) = acousticness a * 0.5 + valence a * 0.3 + (1 - energy a) * 0.2"
    "nostalgia (deriveVibeVector a) =
       acousticness a * 0.4 + (1 - tempo a) * 0.3 + (1 - energy a) * 0.3"
    "eeriness (deriveVibeVector a) =
       (1 - valence a) * 0.5 + (1 - danceability a) * 0.3 + (1 - warmth (deriveVibeVector a)) * 0.2"
    "pace (deriveVibeVector a) = tempo a * 0.6 + energy a * 0.4"
    by (simp_all add: deriveVibeVector_def Let_def)
  have range: "\<forall>k \<in> set keys. 0 \<le> vget (deriveVibeVector a) k \<and> vget (deriveVibeVector a) k \<le> 1"
    if "0 \<le> energy a" "energy a \<le> 1" "0 \<le> valence a" "valence a \<le> 1"
      "0 \<le> tempo a" "tempo a \<le> 1" "0 \<le> acousticness a" "acousticness a \<le> 1"
      "0 \<le> danceability a" "danceability a \<le> 1"
    using that unfolding keys_def by (auto simp add: sel; argo)
  from sel range show ?thesis by blast
qed

text \<open>The theorem at the audio features of the repository's test: melancholy 0.9.\<close>

theorem deriveVibeVector_witness:
  "(0 \<le> energy audio_example \<and> energy audio_example \<le> 1 \<and>
    0 \<le> valence audio_example \<and> valence audio_example \<le> 1 \<and>
    0 \<le> tempo audio_example \<and> tempo audio_example \<le> 1 \<and>
    0 \<le> acousticness audio_example \<and> acousticness audio_example \<le> 1 \<and>
    0 \<le> danceability audio_example \<and> danceability audio_example \<le> 1) \<and>
   list_all (\<lambda>k. 0 \<le> vget (deriveVibeVector audio_example) k \<and>
                   vget (deriveVibeVector audio_example) k \<le> 1) keys \<and>
   melancholy (deriveVibeVector audio_example) = 0.9 \<and>
   intensity (deriveVibeVector audio_example) = 0.5"
  using deriveVibeVector_formulas_range [of audio_example]
  by (simp add: audio_example_def list_all_iff)

subsection \<open>Penalties\<close>

lemma total_if_penalize:
  "total (if g then penalize c l p else p) = total p + (if g then c else 0)"
  by (simp add: penalize_def)

lemma sum_list_filter5:
  "sum_list (map snd (filter P [r1, r2, r3, r4, r5])) =
     (if P r1 then snd r1 else 0) + (if P r2 then snd r2 else 0) + (if P r3 then snd r3 else 0) +
     (if P r4 then snd r4 else 0) + (if P r5 then (snd r5 :: real) else 0)"
  by simp

lemma penalty_total_ifs:
  "total (calculatePenalties book songVec a) =
     (if melancholy (vibeVector book) > 0.7 \<and> valence a > 0.7 then - 0.10 else 0) +
     (if tension (vibeVector book) > 0.7 \<and> energy a < 0.3 then - 0.05 else 0) +
     (if eeriness (vibeVector book) > 0.7 \<and> warmth songVec > 0.7 then - 0.08 else 0) +
     (if hope (vibeVector book) > 0.7 \<and> valence a < 0.2 then - 0.07 else 0) +
     (if intensity (vibeVector book) > 0.8 \<and> energy a < 0.25 then - 0.05 else 0)"
  unfolding calculatePenalties_def Let_def total_if_penalize by simp

lemma penalty_total_fired:
  "total (calculatePenalties book songVec a) =
     (if fired book songVec a ! 0 then - 0.10 else 0) +
     (if fired book songVec a ! 1 then - 0.05 else 0) +
     (if fired book songVec a ! 2 then - 0.08 else 0) +
     (if fired book songVec a ! 3 then - 0.07 else 0) +
     (if fired book songVec a ! 4 then - 0.05 else 0)"
  unfolding penalty_total_ifs fired_def penalty_rules_def by simp

text \<open>
  Claim C6. The total returned by \<^verbatim>\<open>calculatePenalties\<close> is the sum of the constants of
  exactly the rules whose guards (strict comparisons) hold: it is 0 when no guard holds,
  \<open>-0.10\<close> when only the melancholy and valence guard holds, and it is not clamped: the
  first and the third rule together give \<open>-0.18\<close>, below \<open>-0.15\<close>.
\<close>

theorem calculatePenalties_total:
  "total (calculatePenalties book songVec a) =
     sum_list (map snd (filter (\<lambda>r. fst r book songVec a) penalty_rules)) \<and>
   (fired b0 v0 a0 = [False, False, False, False, False] \<longrightarrow>
      total (calculatePenalties b0 v0 a0) = 0) \<and>
   (fired b1 v1 a1 = [True, False, False, False, False] \<longrightarrow>
      total (calculatePenalties b1 v1 a1) = - 0.10) \<and>
   (fired b2 v2 a2 = [True, False, True, False, False] \<longrightarrow>
      total (calculatePenalties b2 v2 a2) = - 0.18 \<and>
      total (calculatePenalties b2 v2 a2) < - 0.15)"
proof -
  have "total (calculatePenalties book songVec a) =
     sum_list (map snd (filter (\<lambda>r. fst r book songVec a) penalty_rules))"
    unfolding penalty_total_ifs penalty_rules_def sum_list_filter5 by simp
  moreover have "total (calculatePenalties b0 v0 a0) = 0"
    if "fired b0 v0 a0 = [False, False, False, False, False]"
    unfolding penalty_total_fired that by simp
  moreover have "total (calculatePenalties b1 v1 a1) = - 0.10"
    if "fired b1 v1 a1 = [True, False, False, False, False]"
    unfolding penalty_total_fired that by simp
  moreover have "total (calculatePenalties b2 v2 a2) = - 0.18"
    if "fired b2 v2 a2 = [True, False, True, False, False]"
    unfolding penalty_total_fired that by simp
  ultimately show ?thesis by simp
qed

text \<open>
  The three cases at concrete inputs, the song vector derived from the audio features as
  the engine does: the book and song of the test \<^verbatim>\<open>applies no penalty for matching vibes\<close>,
  those of \<^verbatim>\<open>applies melancholy+happy penalty\<close>, and an eerie, melancholic book with a
  warm, happy song.
\<close>

theorem calculatePenalties_total_witness:
  "fired testBook (deriveVibeVector (audio perfectMatch)) (audio perfectMatch) =
     [False, False, False, False, False] \<and>
   total (calculatePenalties testBook (deriveVibeVector (audio perfectMatch)) (audio perfectMatch)) = 0 \<and>
   fired melancholicBook (deriveVibeVector happyAudio) happyAudio =
     [True, False, False, False, False] \<and>
   total (calculatePenalties melancholicBook (deriveVibeVector happyAudio) happyAudio) = - 0.10 \<and>
   fired eerieBook (deriveVibeVector warmAudio) warmAudio = [True, False, True, False, False] \<and>
   total (calculatePenalties eerieBook (deriveVibeVector warmAudio) warmAudio) = - 0.18"
proof -
  have f0: "fired testBook (deriveVibeVector (audio perfectMatch)) (audio perfectMatch) =
     [False, False, False, False, False]"
    by (simp add: fired_def penalty_rules_def testBook_def perfectMatch_def deriveVibeVector_def)
  have f1: "fired melancholicBook (deriveVibeVector happyAudio) happyAudio =
     [True, False, False, False, False]"
    by (simp add: fired_def penalty_rules_def testBook_def melancholicBook_def happyAudio_def
        deriveVibeVector_def)
  have f2: "fired eerieBook (deriveVibeVector warmAudio) warmAudio =
     [True, False, True, False, False]"
    by (simp add: fired_def penalty_rules_def testBook_def eerieBook_def warmAudio_def
        deriveVibeVector_def)
  from f0 f1 f2
    calculatePenalties_total [of testBook "deriveVibeVector (audio perfectMatch)" "audio perfectMatch"
      testBook "deriveVibeVector (audio perfectMatch)" "audio perfectMatch"
      melancholicBook "deriveVibeVector happyAudio" happyAudio
      eerieBook "deriveVibeVector warmAudio" warmAudio]
  show ?thesis by simp
qed

subsection \<open>The best match\<close>

lemma matchThemeSong_step_eq:
  "matchThemeSong_step book bestMatch s =
     (case bestMatch of
        None \<Rightarrow> Some (getMatchResultForSong book s)
      | Some best \<Rightarrow>
          if totalScore (getMatchResultForSong book s) > totalScore best
          then Some (getMatchResultForSong book s) else bestMatch)"
  by (simp add: matchThemeSong_step_def getMatchResultForSong_def Let_def split: option.split)

lemma matchThemeSong_loop:
  assumes "songs \<noteq> []"
  shows "\<exists>i<length songs.
           foldl (matchThemeSong_step book) None songs = Some (getMatchResultForSong book (songs ! i)) \<and>
           (\<forall>j<length songs. totalScore (getMatchResultForSong book (songs ! j))
                                \<le> totalScore (getMatchResultForSong book (songs ! i))) \<and>
           (\<forall>j<i. totalScore (getMatchResultForSong book (songs ! j))
                     < totalScore (getMatchResultForSong book (songs ! i)))"
  using assms
proof (induction songs rule: rev_induct)
  case Nil
  then show ?case by simp
next
  case (snoc x xs)
  let ?T = "\<lambda>s. totalScore (getMatchResultForSong book s)"
  show ?case
  proof (cases "xs = []")
    case True
    then show ?thesis by (simp add: matchThemeSong_step_eq)
  next
    case False
    from snoc.IH [OF False] obtain i where i: "i < length xs"
      and best: "foldl (matchThemeSong_step book) None xs = Some (getMatchResultForSong book (xs ! i))"
      and mx: "\<forall>j<length xs. ?T (xs ! j) \<le> ?T (xs ! i)"
      and fst: "\<forall>j<i. ?T (xs ! j) < ?T (xs ! i)"
      by blast
    show ?thesis
    proof (cases "?T x > ?T (xs ! i)")
      case True
      have "foldl (matchThemeSong_step book) None (xs @ [x]) =
              Some (getMatchResultForSong book ((xs @ [x]) ! length xs))"
        using best True by (simp add: matchThemeSong_step_eq)
      moreover have below: "?T (xs ! j) < ?T x" if "j < length xs" for j
      proof -
        from mx that have "?T (xs ! j) \<le> ?T (xs ! i)" by blast
        with True show ?thesis by simp
      qed
      then have "\<forall>j<length (xs @ [x]). ?T ((xs @ [x]) ! j) \<le> ?T ((xs @ [x]) ! length xs)"
        by (auto simp: nth_append less_Suc_eq intro: less_imp_le)
      moreover from below
      have "\<forall>j<length xs. ?T ((xs @ [x]) ! j) < ?T ((xs @ [x]) ! length xs)"
        by (simp add: nth_append)
      ultimately show ?thesis
        by (intro exI [of _ "length xs"]) simp
    next
      case False
      have "foldl (matchThemeSong_step book) None (xs @ [x]) =
              Some (getMatchResultForSong book ((xs @ [x]) ! i))"
        using best False i by (simp add: matchThemeSong_step_eq nth_append)
      moreover have "?T ((xs @ [x]) ! j) \<le> ?T ((xs @ [x]) ! i)" if "j < length (xs @ [x])" for j
      proof (cases "j < length xs")
        case True
        with mx have "?T (xs ! j) \<le> ?T (xs ! i)" by blast
        with True i show ?thesis by (simp add: nth_append)
      next
        case nl: False
        with that have "j = length xs" by simp
        with False i show ?thesis by (simp add: nth_append)
      qed
      then have "\<forall>j<length (xs @ [x]). ?T ((xs @ [x]) ! j) \<le> ?T ((xs @ [x]) ! i)"
        by blast
      moreover have "\<forall>j<i. ?T ((xs @ [x]) ! j) < ?T ((xs @ [x]) ! i)"
        using fst i by (auto simp: nth_append)
      ultimately show ?thesis
        using i by (intro exI [of _ i]) simp
    qed
  qed
qed

text \<open>
  Claim C3. On an empty list of songs \<^verbatim>\<open>matchThemeSong\<close> throws (the result is the
  error, not a value); on a non-empty list it returns the result of one of the songs, whose
  total score no song exceeds, and every song before it in the list scores strictly less:
  the first of the best wins.
\<close>

theorem matchThemeSong_best:
  "matchThemeSong book [] = Inl (Error ''No songs available for matching'') \<and>
   (songs \<noteq> [] \<longrightarrow>
     (\<exists>i<length songs.
        matchThemeSong book songs = Inr (getMatchResultForSong book (songs ! i)) \<and>
        (\<forall>j<length songs. totalScore (getMatchResultForSong book (songs ! j))
                             \<le> totalScore (getMatchResultForSong book (songs ! i))) \<and>
        (\<forall>j<i. totalScore (getMatchResultForSong book (songs ! j))
                  < totalScore (getMatchResultForSong book (songs ! i)))))"
proof -
  have "matchThemeSong book [] = Inl (Error ''No songs available for matching'')"
    by (simp add: matchThemeSong_def)
  moreover have "\<exists>i<length songs.
        matchThemeSong book songs = Inr (getMatchResultForSong book (songs ! i)) \<and>
        (\<forall>j<length songs. totalScore (getMatchResultForSong book (songs ! j))
                             \<le> totalScore (getMatchResultForSong book (songs ! i))) \<and>
        (\<forall>j<i. totalScore (getMatchResultForSong book (songs ! j))
                  < totalScore (getMatchResultForSong book (songs ! i)))" if "songs \<noteq> []"
    using matchThemeSong_loop [OF that, of book] unfolding matchThemeSong_def
    by (auto simp del: foldl_append)
  ultimately show ?thesis by blast
qed

text \<open>Two songs that differ in their identifier only tie; the first one is returned.\<close>

theorem matchThemeSong_best_witness:
  "[perfectMatch, perfectMatchTwin] \<noteq> [] \<and>
   totalScore (getMatchResultForSong testBook perfectMatchTwin) =
     totalScore (getMatchResultForSong testBook perfectMatch) \<and>
   matchThemeSong testBook [perfectMatch, perfectMatchTwin] =
     Inr (getMatchResultForSong testBook perfectMatch)"
proof -
  let ?songs = "[perfectMatch, perfectMatchTwin]"
  have tie: "totalScore (getMatchResultForSong testBook perfectMatchTwin) =
     totalScore (getMatchResultForSong testBook perfectMatch)"
    by (simp add: getMatchResultForSong_def perfectMatchTwin_def Let_def)
  have ne: "?songs \<noteq> []" by simp
  from matchThemeSong_best [of testBook ?songs] ne
  obtain i where i: "i < length ?songs"
    and res: "matchThemeSong testBook ?songs = Inr (getMatchResultForSong testBook (?songs ! i))"
    and first: "\<forall>j<i. totalScore (getMatchResultForSong testBook (?songs ! j))
                        < totalScore (getMatchResultForSong testBook (?songs ! i))"
    by blast
  have "i = 0"
  proof (rule ccontr)
    assume "i \<noteq> 0"
    with i have "i = 1" by simp
    with first [rule_format, of 0]
    have "totalScore (getMatchResultForSong testBook perfectMatch)
            < totalScore (getMatchResultForSong testBook perfectMatchTwin)"
      by simp
    with tie show False by simp
  qed
  with res tie show ?thesis by simp
qed

subsection \<open>Empty inputs\<close>

lemma allPairs_no_songs: "foldl (allPairs_book []) acc books = acc"
  by (induction books arbitrary: acc) (simp_all add: allPairs_book_def)

text \<open>
  Claim C10. With no books, or with no songs, \<^verbatim>\<open>matchAllBooksUniquely\<close> returns the
  empty map: it has no \<^verbatim>\<open>throw\<close>, so its model has no error result. On no songs
  \<^verbatim>\<open>matchThemeSong\<close> throws.
\<close>

theorem empty_inputs:
  "matchAllBooksUniquely [] songs = [] \<and> matchAllBooksUniquely books [] = [] \<and>
   matchThemeSong b [] = Inl (Error ''No songs available for matching'')"
  by (simp add: matchAllBooksUniquely_def matchThemeSong_def allPairs_no_songs sort_by_def)

subsection \<open>Tag similarity\<close>











subsection \<open>Vector similarity\<close>

lemma foldl_cosine_step:
  "foldl (cosine_step v w) (d, a, b) ks =
     (d + (\<Sum>k\<leftarrow>ks. vget v k * vget w k), a + (\<Sum>k\<leftarrow>ks. (vget v k)\<^sup>2),
      b + (\<Sum>k\<leftarrow>ks. (vget w k)\<^sup>2))"
  by (induction ks arbitrary: d a b) (simp_all add: cosine_step_def add.assoc)

lemma cosineSimilarity_eq:
  "cosineSimilarity v w =
     (if norm_Vibe v = 0 \<or> norm_Vibe w = 0 then 0
      else dot_Vibe v w / (norm_Vibe v * norm_Vibe w))"
  unfolding cosineSimilarity_def foldl_cosine_step dot_Vibe_def norm_Vibe_def
  by (simp add: Let_def)

lemma cauchy_schwarz_2:
  fixes p q r s :: real
  shows "p * r + q * s \<le> sqrt (p\<^sup>2 + q\<^sup>2) * sqrt (r\<^sup>2 + s\<^sup>2)"
proof -
  have "(p * r + q * s)\<^sup>2 + (p * s - q * r)\<^sup>2 = (p\<^sup>2 + q\<^sup>2) * (r\<^sup>2 + s\<^sup>2)"
    by (simp add: power2_eq_square algebra_simps)
  then have "(p * r + q * s)\<^sup>2 \<le> (p\<^sup>2 + q\<^sup>2) * (r\<^sup>2 + s\<^sup>2)"
    using zero_le_power2 [of "p * s - q * r"] by linarith
  then have "p * r + q * s \<le> sqrt ((p\<^sup>2 + q\<^sup>2) * (r\<^sup>2 + s\<^sup>2))"
    by (rule real_le_rsqrt)
  then show ?thesis by (simp add: real_sqrt_mult)
qed

lemma sum_list_squares_nonneg: "0 \<le> (\<Sum>x\<leftarrow>xs. (f x :: real)\<^sup>2)"
  by (rule sum_list_nonneg) auto

lemma cauchy_schwarz_list:
  fixes f g :: "'a \<Rightarrow> real"
  shows "\<bar>\<Sum>x\<leftarrow>xs. f x * g x\<bar> \<le> sqrt (\<Sum>x\<leftarrow>xs. (f x)\<^sup>2) * sqrt (\<Sum>x\<leftarrow>xs. (g x)\<^sup>2)"
proof (induction xs)
  case Nil
  show ?case by simp
next
  case (Cons x xs)
  let ?S = "\<Sum>x\<leftarrow>xs. f x * g x" and ?A = "\<Sum>x\<leftarrow>xs. (f x)\<^sup>2" and ?B = "\<Sum>x\<leftarrow>xs. (g x)\<^sup>2"
  have A: "0 \<le> ?A" and B: "0 \<le> ?B"
    by (rule sum_list_squares_nonneg)+
  have "\<bar>f x * g x + ?S\<bar> \<le> \<bar>f x\<bar> * \<bar>g x\<bar> + \<bar>?S\<bar>"
    using abs_triangle_ineq [of "f x * g x" ?S] by (simp add: abs_mult)
  also have "\<dots> \<le> \<bar>f x\<bar> * \<bar>g x\<bar> + sqrt ?A * sqrt ?B"
    using Cons.IH by simp
  also have "\<dots> \<le> sqrt (\<bar>f x\<bar>\<^sup>2 + (sqrt ?A)\<^sup>2) * sqrt (\<bar>g x\<bar>\<^sup>2 + (sqrt ?B)\<^sup>2)"
    by (rule cauchy_schwarz_2)
  also have "\<dots> = sqrt ((f x)\<^sup>2 + ?A) * sqrt ((g x)\<^sup>2 + ?B)"
    using A B by simp
  finally show ?case by simp
qed

lemma abs_dot_le_norms: "\<bar>dot_Vibe v w\<bar> \<le> norm_Vibe v * norm_Vibe w"
  unfolding dot_Vibe_def norm_Vibe_def by (rule cauchy_schwarz_list)

lemma norm_Vibe_nonneg: "0 \<le> norm_Vibe v"
  unfolding norm_Vibe_def by (simp add: sum_list_squares_nonneg)

lemma dot_Vibe_self: "dot_Vibe v v = (norm_Vibe v)\<^sup>2"
  unfolding dot_Vibe_def norm_Vibe_def
  by (simp add: sum_list_squares_nonneg power2_eq_square [symmetric])

lemma norm_Vibe_zero_iff: "norm_Vibe v = 0 \<longleftrightarrow> (\<forall>k\<in>set keys. vget v k = 0)"
proof -
  have "(\<Sum>k\<leftarrow>ks. (vget v k)\<^sup>2) = 0 \<longleftrightarrow> (\<forall>k\<in>set ks. vget v k = 0)" for ks
    by (induction ks) (simp_all add: add_nonneg_eq_0_iff sum_list_squares_nonneg)
  then show ?thesis by (simp add: norm_Vibe_def)
qed

lemma abs_cosineSimilarity_le_1: "\<bar>cosineSimilarity v w\<bar> \<le> 1"
proof (cases "norm_Vibe v = 0 \<or> norm_Vibe w = 0")
  case True
  then show ?thesis by (simp add: cosineSimilarity_eq)
next
  case False
  with norm_Vibe_nonneg [of v] norm_Vibe_nonneg [of w]
  have pos: "0 < norm_Vibe v * norm_Vibe w" by simp
  have "\<bar>norm_Vibe v * norm_Vibe w\<bar> = norm_Vibe v * norm_Vibe w"
    using pos by simp
  then have "\<bar>dot_Vibe v w / (norm_Vibe v * norm_Vibe w)\<bar> =
               \<bar>dot_Vibe v w\<bar> / (norm_Vibe v * norm_Vibe w)"
    unfolding abs_divide by simp
  also have "\<dots> \<le> 1"
    using pos abs_dot_le_norms [of v w] by (simp add: divide_le_eq)
  finally show ?thesis using False by (simp add: cosineSimilarity_eq)
qed

lemma dot_Vibe_nonneg:
  assumes "\<forall>k\<in>set keys. 0 \<le> vget v k \<and> 0 \<le> vget w k"
  shows "0 \<le> dot_Vibe v w"
  unfolding dot_Vibe_def using assms by (intro sum_list_nonneg) auto

text \<open>Rounding to the nearest double.\<close>

lemma rne_eqI:
  assumes "\<bar>x - of_int m\<bar> < 1 / 2"
  shows "rne x = m"
proof (cases "of_int m \<le> x")
  case True
  have "\<lfloor>x\<rfloor> = m"
  proof (rule floor_unique)
    show "of_int m \<le> x" by (rule True)
    show "x < of_int m + 1" using assms by linarith
  qed
  with assms True show ?thesis by (simp add: rne_def Let_def)
next
  case False
  have fl: "\<lfloor>x\<rfloor> = m - 1"
  proof (rule floor_unique)
    show "of_int (m - 1) \<le> x" using assms by (simp add: abs_if split: if_splits)
    show "x < of_int (m - 1) + 1" using False by simp
  qed
  from False assms have "1 / 2 < x - of_int (m - 1)" by simp
  with fl show ?thesis by (simp add: rne_def Let_def)
qed

lemma rne_of_int: "rne (of_int m) = m"
  by (rule rne_eqI) simp




lemma ulp_exp_subnormal:
  assumes "x \<noteq> 0" "\<bar>x\<bar> < 2 powi (- 1022)"
  shows "ulp_exp x = - 1074"
proof -
  have "(2::real) powr real_of_int (- 1022) = 2 powi (- 1022)"
    by (rule powr_real_of_int') simp_all
  with assms(2) have "\<bar>x\<bar> < 2 powr real_of_int (- 1022)"
    by simp
  with assms(1) have "log 2 \<bar>x\<bar> < real_of_int (- 1022)"
    by (subst log_less_iff) simp_all
  then have "\<lfloor>log 2 \<bar>x\<bar>\<rfloor> < - 1022"
    by (simp only: floor_less_iff)
  then show ?thesis by (simp add: ulp_exp_def)
qed







lemma fl_subnormal:
  assumes "\<bar>x\<bar> < 2 powi (- 1022)" "\<bar>x / 2 powi (- 1074) - of_int m\<bar> < 1 / 2"
  shows "fl x = of_int m * 2 powi (- 1074)"
proof (cases "x = 0")
  case True
  with assms(2) have "\<bar>real_of_int m\<bar> < 1 / 2" by simp
  then have "m = 0" by linarith
  with True show ?thesis by (simp add: fl_def)
next
  case False
  with ulp_exp_subnormal [OF False assms(1)] rne_eqI [OF assms(2)] show ?thesis
    by (simp add: fl_def)
qed

lemma fl_tiny: "fl (1 / 2 ^ 1200) = 0"
  using fl_subnormal [of "1 / 2 ^ 1200" 0] by (simp add: power_int_minus)


































subsection \<open>The stable sort\<close>

lemma mset_insert_by: "mset (insert_by cmp x ys) = add_mset x (mset ys)"
  by (induction ys) simp_all

lemma mset_sort_by: "mset (sort_by cmp xs) = mset xs"
  unfolding sort_by_def by (induction xs) (simp_all add: mset_insert_by)

lemma set_sort_by: "set (sort_by cmp xs) = set xs"
  using mset_sort_by [of cmp xs] by (metis set_mset_mset)

lemma length_sort_by: "length (sort_by cmp xs) = length xs"
  using mset_sort_by [of cmp xs] by (metis size_mset)

lemma set_insert_by: "set (insert_by cmp x ys) = insert x (set ys)"
  using mset_insert_by [of cmp x ys] by (metis set_mset_mset set_mset_add_mset_insert)

lemma sorted_insert_by:
  assumes "sorted_wrt (\<lambda>a b. key b \<le> (key a :: real)) ys"
  shows "sorted_wrt (\<lambda>a b. key b \<le> key a) (insert_by (\<lambda>a b. key b - key a) x ys)"
  using assms by (induction ys) (auto simp: set_insert_by)

lemma sorted_sort_by:
  "sorted_wrt (\<lambda>a b. key b \<le> (key a :: real)) (sort_by (\<lambda>a b. key b - key a) xs)"
  unfolding sort_by_def by (induction xs) (simp_all add: sorted_insert_by)

lemma filter_insert_by:
  "filter (\<lambda>y. key y = (c :: real)) (insert_by (\<lambda>a b. key b - key a) x ys) =
     (if key x = c then x # filter (\<lambda>y. key y = c) ys else filter (\<lambda>y. key y = c) ys)"
  by (induction ys) auto

lemma stable_sort_by:
  "filter (\<lambda>y. key y = (c :: real)) (sort_by (\<lambda>a b. key b - key a) xs) = filter (\<lambda>y. key y = c) xs"
  unfolding sort_by_def by (induction xs) (simp_all add: filter_insert_by)

lemma stable_sorted_unique:
  fixes key :: "'a \<Rightarrow> real"
  assumes "sorted_wrt (\<lambda>a b. key b \<le> key a) xs" "sorted_wrt (\<lambda>a b. key b \<le> key a) ys"
    and "\<And>c. filter (\<lambda>y. key y = c) xs = filter (\<lambda>y. key y = c) ys"
  shows "xs = ys"
  using assms
proof (induction xs arbitrary: ys)
  case Nil
  have "y \<notin> set ys" for y
  proof
    assume "y \<in> set ys"
    then have "y \<in> set (filter (\<lambda>z. key z = key y) ys)" by simp
    with Nil.prems(3) [of "key y"] show False by simp
  qed
  then show ?case by (cases ys) auto
next
  case (Cons x xs)
  from Cons.prems(3) [of "key x"] have "x \<in> set (filter (\<lambda>z. key z = key x) ys)"
    by (metis (mono_tags, lifting) filter.simps(2) list.set_intros(1))
  then have xin: "x \<in> set ys" by simp
  then obtain y ys' where ys: "ys = y # ys'" by (cases ys) auto
  have "y \<in> set (filter (\<lambda>z. key z = key y) (x # xs))"
    using Cons.prems(3) [of "key y"] ys by simp
  then have yin: "y \<in> set (x # xs)" by (auto split: if_splits)
  have "key x \<le> key y" using xin Cons.prems(2) ys by auto
  moreover have "key y \<le> key x" using yin Cons.prems(1) by auto
  ultimately have k: "key y = key x" by simp
  with Cons.prems(3) [of "key x"] ys have xy: "x = y" by simp
  have "filter (\<lambda>z. key z = c) xs = filter (\<lambda>z. key z = c) ys'" for c
    using Cons.prems(3) [of c] ys xy by (simp split: if_splits)
  moreover have "sorted_wrt (\<lambda>a b. key b \<le> key a) xs" "sorted_wrt (\<lambda>a b. key b \<le> key a) ys'"
    using Cons.prems(1,2) ys by simp_all
  ultimately have "xs = ys'" by (intro Cons.IH)
  with xy ys show ?case by simp
qed

subsection \<open>The scored pairs\<close>

lemma allPairs_song_eq: "allPairs_song b acc s = acc @ [scoredPair b s]"
  by (simp add: allPairs_song_def scoredPair_def getMatchResultForSong_def Let_def)

lemma foldl_allPairs_song: "foldl (allPairs_song b) acc songs = acc @ map (scoredPair b) songs"
  by (induction songs arbitrary: acc) (simp_all add: allPairs_song_eq)

lemma foldl_allPairs_book:
  "foldl (allPairs_book songs) acc books = acc @ enumeratePairs books songs"
  by (induction books arbitrary: acc)
    (simp_all add: allPairs_book_def foldl_allPairs_song enumeratePairs_def)

lemma set_enumeratePairs:
  "set (enumeratePairs books songs) = {scoredPair b s | b s. b \<in> set books \<and> s \<in> set songs}"
  by (auto simp: enumeratePairs_def)

lemma byScore_eq: "(\<lambda>a b. totalScore (result_Pair b) - totalScore (result_Pair a)) = byScore"
  by (simp add: fun_eq_iff byScore_def)

lemma matchAllBooksUniquely_eq:
  "matchAllBooksUniquely books songs =
     assignments (assign_loop (length books) no_assignment
        (sort_by byScore (enumeratePairs books songs)))"
  by (simp add: matchAllBooksUniquely_def Let_def foldl_allPairs_book no_assignment_def byScore_eq)

lemma assign_loop_Cons:
  "assign_loop n st (pair # rest) =
     (if committed st pair then assign_loop n st rest
      else if length (assignedBookIds (commit st pair)) = n then commit st pair
           else assign_loop n (commit st pair) rest)"
  by (simp add: committed_def commit_def Let_def)

subsection \<open>The greedy loop\<close>

lemma Map_set_new: "k \<notin> fst ` set m \<Longrightarrow> Map_set m k v = m @ [(k, v)]"
  by (induction m) auto

lemma set_Set_add: "set (Set_add s x) = insert x (set s)"
  by (auto simp: Set_add_def)

lemma song_scoredPair: "song (result_Pair (scoredPair b s)) = song_Pair (scoredPair b s)"
  by (simp add: scoredPair_def getMatchResultForSong_def Let_def)

lemma commit_inv:
  assumes "assignment_inv st" "\<not> committed st p" "song (result_Pair p) = song_Pair p"
  shows "assignment_inv (commit st p)"
proof -
  from assms(1,2) have new: "id_Book (book_Pair p) \<notin> fst ` set (assignments st)"
    unfolding assignment_inv_def committed_def by (metis set_map)
  from assms show ?thesis
    unfolding assignment_inv_def commit_def committed_def
    by (simp add: Map_set_new [OF new] Set_add_def)
qed

lemma assign_loop_inv:
  assumes "assignment_inv st" "\<forall>p\<in>set ps. song (result_Pair p) = song_Pair p"
  shows "assignment_inv (assign_loop n st ps)"
  using assms
proof (induction ps arbitrary: st)
  case Nil
  then show ?case by simp
next
  case (Cons p ps)
  then show ?case
    by (simp add: assign_loop_Cons commit_inv del: assign_loop.simps)
qed

lemma assign_loop_mono:
  "set (assignedBookIds st) \<subseteq> set (assignedBookIds (assign_loop n st ps)) \<and>
   set (usedSongIds st) \<subseteq> set (usedSongIds (assign_loop n st ps))"
proof (induction ps arbitrary: st)
  case Nil
  show ?case by simp
next
  case (Cons p ps)
  have "set (assignedBookIds st) \<subseteq> set (assignedBookIds (commit st p))"
    "set (usedSongIds st) \<subseteq> set (usedSongIds (commit st p))"
    by (auto simp: commit_def set_Set_add)
  with Cons [of st] Cons [of "commit st p"] show ?case
    by (auto simp: assign_loop_Cons simp del: assign_loop.simps)
qed

lemma committed_mono:
  assumes "committed st p"
  shows "committed (assign_loop n st ps) p"
  using assms assign_loop_mono [of st n ps] unfolding committed_def by blast

lemma committed_commit: "committed (commit st p) p"
  by (simp add: committed_def commit_def set_Set_add)

lemma assign_loop_maximal:
  "length (assignedBookIds (assign_loop n st ps)) = n \<or>
   (\<forall>p\<in>set ps. committed (assign_loop n st ps) p)"
proof (induction ps arbitrary: st)
  case Nil
  show ?case by simp
next
  case (Cons p ps)
  show ?case
  proof (cases "committed st p")
    case True
    with Cons [of st] committed_mono [OF True, of n ps] show ?thesis
      by (auto simp: assign_loop_Cons simp del: assign_loop.simps)
  next
    case False
    show ?thesis
    proof (cases "length (assignedBookIds (commit st p)) = n")
      case True
      with False show ?thesis
        by (simp add: assign_loop_Cons del: assign_loop.simps)
    next
      case full: False
      with False Cons [of "commit st p"] committed_mono [OF committed_commit, of n st p ps]
      show ?thesis
        by (auto simp: assign_loop_Cons simp del: assign_loop.simps)
    qed
  qed
qed

lemma assign_loop_subset:
  "set (assignedBookIds (assign_loop n st ps)) \<subseteq>
     set (assignedBookIds st) \<union> (\<lambda>p. id_Book (book_Pair p)) ` set ps \<and>
   set (usedSongIds (assign_loop n st ps)) \<subseteq>
     set (usedSongIds st) \<union> (\<lambda>p. id_Song (song_Pair p)) ` set ps"
proof (induction ps arbitrary: st)
  case Nil
  show ?case by simp
next
  case (Cons p ps)
  have "set (assignedBookIds (commit st p)) = insert (id_Book (book_Pair p)) (set (assignedBookIds st))"
    "set (usedSongIds (commit st p)) = insert (id_Song (song_Pair p)) (set (usedSongIds st))"
    by (simp_all add: commit_def set_Set_add)
  with Cons [of st] Cons [of "commit st p"] show ?case
    by (auto simp: assign_loop_Cons simp del: assign_loop.simps)
qed

lemma set_Map_set: "set (Map_set m k v) \<subseteq> insert (k, v) (set m)"
  by (induction m) auto

lemma assign_loop_entries:
  "set (assignments (assign_loop n st ps)) \<subseteq>
     set (assignments st) \<union> (\<lambda>p. (id_Book (book_Pair p), result_Pair p)) ` set ps"
proof (induction ps arbitrary: st)
  case Nil
  show ?case by simp
next
  case (Cons p ps)
  have "set (assignments (commit st p)) \<subseteq>
          insert (id_Book (book_Pair p), result_Pair p) (set (assignments st))"
    by (simp add: commit_def set_Map_set)
  with Cons [of st] Cons [of "commit st p"] show ?case
    by (auto simp: assign_loop_Cons simp del: assign_loop.simps)
qed

lemma assignment_inv_no_assignment: "assignment_inv no_assignment"
  by (simp add: assignment_inv_def no_assignment_def)

lemma matchAllBooksUniquely_entries:
  assumes "e \<in> set (matchAllBooksUniquely books songs)"
  shows "\<exists>b\<in>set books. \<exists>s\<in>set songs. e = (id_Book b, getMatchResultForSong b s)"
proof -
  from assms assign_loop_entries [of "length books" no_assignment
      "sort_by byScore (enumeratePairs books songs)"]
  have "e \<in> (\<lambda>p. (id_Book (book_Pair p), result_Pair p)) ` set (enumeratePairs books songs)"
    by (auto simp: matchAllBooksUniquely_eq set_sort_by no_assignment_def)
  then obtain b s where "b \<in> set books" "s \<in> set songs"
    "e = (id_Book b, getMatchResultForSong b s)"
    by (auto simp: set_enumeratePairs scoredPair_def)
  then show ?thesis by blast
qed

text \<open>
  Claim C1. For books of pairwise distinct identifiers and songs of pairwise distinct
  identifiers, no song identifier occurs in two entries of the map that
  \<^verbatim>\<open>matchAllBooksUniquely\<close> returns, no book identifier is the key of two entries, and
  the map has at most \<open>min(|books|, |songs|)\<close> entries; with at least as many songs as
  books it has exactly one entry for each book.
\<close>

theorem matchAllBooksUniquely_unique:
  assumes "distinct (map id_Book books)" and "distinct (map id_Song songs)"
  shows "distinct (map (\<lambda>e. id_Song (song (snd e))) (matchAllBooksUniquely books songs)) \<and>
         distinct (map fst (matchAllBooksUniquely books songs)) \<and>
         length (matchAllBooksUniquely books songs) \<le> min (length books) (length songs) \<and>
         (length books \<le> length songs \<longrightarrow>
            length (matchAllBooksUniquely books songs) = length books)"
proof -
  let ?ps = "sort_by byScore (enumeratePairs books songs)"
  let ?st = "assign_loop (length books) no_assignment ?ps"
  have res: "matchAllBooksUniquely books songs = assignments ?st"
    by (rule matchAllBooksUniquely_eq)
  have ps: "set ?ps = {scoredPair b s | b s. b \<in> set books \<and> s \<in> set songs}"
    by (simp add: set_sort_by set_enumeratePairs)
  then have "\<forall>p\<in>set ?ps. song (result_Pair p) = song_Pair p"
    using song_scoredPair by auto
  then have "assignment_inv ?st"
    by (intro assign_loop_inv assignment_inv_no_assignment)
  then have keys: "map fst (assignments ?st) = assignedBookIds ?st"
    and vals: "map (\<lambda>e. id_Song (song (snd e))) (assignments ?st) = usedSongIds ?st"
    and db: "distinct (assignedBookIds ?st)" and ds: "distinct (usedSongIds ?st)"
    by (simp_all add: assignment_inv_def)
  have lb: "length (assignments ?st) = length (assignedBookIds ?st)"
    using keys by (metis length_map)
  have ls: "length (assignments ?st) = length (usedSongIds ?st)"
    using vals by (metis length_map)
  from assign_loop_subset [of "length books" no_assignment ?ps]
  have sb: "set (assignedBookIds ?st) \<subseteq> id_Book ` set books"
    and ss: "set (usedSongIds ?st) \<subseteq> id_Song ` set songs"
    by (auto simp: ps no_assignment_def scoredPair_def)
  have cb: "card (id_Book ` set books) = length books"
    using assms(1) by (metis distinct_card length_map set_map)
  have cs: "card (id_Song ` set songs) = length songs"
    using assms(2) by (metis distinct_card length_map set_map)
  have "length (assignedBookIds ?st) = card (set (assignedBookIds ?st))"
    using db by (simp add: distinct_card)
  also have "\<dots> \<le> card (id_Book ` set books)"
    using sb by (intro card_mono) simp_all
  finally have le_b: "length (assignments ?st) \<le> length books"
    using lb cb by simp
  have "length (usedSongIds ?st) = card (set (usedSongIds ?st))"
    using ds by (simp add: distinct_card)
  also have "\<dots> \<le> card (id_Song ` set songs)"
    using ss by (intro card_mono) simp_all
  finally have le_s: "length (assignments ?st) \<le> length songs"
    using ls cs by simp
  have all: "length (assignments ?st) = length books" if enough: "length books \<le> length songs"
  proof (rule ccontr)
    assume neq: "length (assignments ?st) \<noteq> length books"
    with le_b lb have less: "length (assignedBookIds ?st) < length books" by simp
    with assign_loop_maximal [of "length books" no_assignment ?ps]
    have com: "\<forall>p\<in>set ?ps. committed ?st p" by simp
    have "set (assignedBookIds ?st) \<noteq> id_Book ` set books"
      using less cb db by (metis distinct_card less_irrefl)
    with sb obtain b where b: "b \<in> set books" "id_Book b \<notin> set (assignedBookIds ?st)"
      by blast
    have "id_Song s \<in> set (usedSongIds ?st)" if "s \<in> set songs" for s
    proof -
      from that b(1) have "scoredPair b s \<in> set ?ps" unfolding ps by blast
      with com have "committed ?st (scoredPair b s)" by blast
      with b(2) show ?thesis by (simp add: committed_def scoredPair_def)
    qed
    then have "id_Song ` set songs \<subseteq> set (usedSongIds ?st)" by blast
    then have "card (id_Song ` set songs) \<le> card (set (usedSongIds ?st))"
      by (intro card_mono) simp_all
    also have "\<dots> = length (usedSongIds ?st)"
      using ds by (simp add: distinct_card)
    finally have "length songs \<le> length (assignments ?st)"
      using cs ls by simp
    with less lb enough show False by simp
  qed
  from keys vals db ds le_b le_s all show ?thesis
    unfolding res by simp
qed

text \<open>Two books and two songs of distinct identifiers: two entries.\<close>

theorem matchAllBooksUniquely_unique_witness:
  "distinct (map id_Book [testBook, secondBook]) \<and>
   distinct (map id_Song [perfectMatch, perfectMatchTwin]) \<and>
   length [testBook, secondBook] \<le> length [perfectMatch, perfectMatchTwin] \<and>
   length (matchAllBooksUniquely [testBook, secondBook] [perfectMatch, perfectMatchTwin]) = 2 \<and>
   distinct (map (\<lambda>e. id_Song (song (snd e)))
     (matchAllBooksUniquely [testBook, secondBook] [perfectMatch, perfectMatchTwin])) \<and>
   distinct (map fst
     (matchAllBooksUniquely [testBook, secondBook] [perfectMatch, perfectMatchTwin]))"
proof -
  have b: "distinct (map id_Book [testBook, secondBook])"
    by (simp add: testBook_def secondBook_def)
  have s: "distinct (map id_Song [perfectMatch, perfectMatchTwin])"
    by (simp add: perfectMatch_def perfectMatchTwin_def)
  from matchAllBooksUniquely_unique [OF b s] b s show ?thesis by simp
qed

subsection \<open>The greedy loop against the specification\<close>

lemma distinct_Set_add: "distinct s \<Longrightarrow> distinct (Set_add s x)"
  by (simp add: Set_add_def)

lemma foldl_walk_step_committed:
  "\<forall>p\<in>set ps. committed st p \<Longrightarrow> foldl walk_step st ps = st"
  by (induction ps) (simp_all add: walk_step_def)

lemma assign_loop_eq_walk:
  assumes "\<forall>p\<in>set ps. id_Book (book_Pair p) \<in> B" "set (assignedBookIds st) \<subseteq> B"
    "distinct (assignedBookIds st)" "finite B" "card B \<le> n"
  shows "assign_loop n st ps = foldl walk_step st ps"
  using assms
proof (induction ps arbitrary: st)
  case Nil
  show ?case by simp
next
  case (Cons p ps)
  show ?case
  proof (cases "committed st p")
    case True
    then have "walk_step st p = st"
      by (simp add: walk_step_def)
    with True Cons show ?thesis
      by (simp add: assign_loop_Cons del: assign_loop.simps)
  next
    case False
    let ?st = "commit st p"
    have ws: "walk_step st p = ?st"
      using False by (simp add: walk_step_def)
    have sub: "set (assignedBookIds ?st) \<subseteq> B"
      using Cons.prems(1,2) by (simp add: commit_def set_Set_add)
    have dist: "distinct (assignedBookIds ?st)"
      using Cons.prems(3) by (simp add: commit_def distinct_Set_add)
    show ?thesis
    proof (cases "length (assignedBookIds ?st) = n")
      case True
      then have "card B \<le> card (set (assignedBookIds ?st))"
        using dist Cons.prems(5) by (simp add: distinct_card)
      with sub Cons.prems(4) have "set (assignedBookIds ?st) = B"
        by (intro card_seteq)
      with Cons.prems(1) have "\<forall>q\<in>set ps. committed ?st q"
        by (simp add: committed_def)
      then have "foldl walk_step ?st ps = ?st"
        by (rule foldl_walk_step_committed)
      with True False show ?thesis
        by (simp add: assign_loop_Cons ws del: assign_loop.simps)
    next
      case neq: False
      have "assign_loop n ?st ps = foldl walk_step ?st ps"
        using Cons.prems(1,4,5) sub dist by (intro Cons.IH) simp_all
      with neq False show ?thesis
        by (simp add: assign_loop_Cons ws del: assign_loop.simps)
    qed
  qed
qed

lemma assign_loop_stops:
  assumes "length (assignedBookIds st) \<noteq> n" "length (assignedBookIds (assign_loop n st pre)) = n"
  shows "assign_loop n st (pre @ rest) = assign_loop n st pre"
  using assms
proof (induction pre arbitrary: st)
  case Nil
  then show ?case by simp
next
  case (Cons p pre)
  show ?case
  proof (cases "committed st p")
    case True
    with Cons show ?thesis
      by (simp add: assign_loop_Cons del: assign_loop.simps)
  next
    case False
    show ?thesis
    proof (cases "length (assignedBookIds (commit st p)) = n")
      case True
      with False show ?thesis
        by (simp add: assign_loop_Cons del: assign_loop.simps)
    next
      case neq: False
      with False Cons.prems(2)
      have "length (assignedBookIds (assign_loop n (commit st p) pre)) = n"
        by (simp add: assign_loop_Cons del: assign_loop.simps)
      with neq have "assign_loop n (commit st p) (pre @ rest) = assign_loop n (commit st p) pre"
        by (rule Cons.IH)
      with neq False show ?thesis
        by (simp add: assign_loop_Cons del: assign_loop.simps)
    qed
  qed
qed

lemma matchAllBooksUniquely_walk:
  "matchAllBooksUniquely books songs =
     assignments (foldl walk_step no_assignment (sort_by byScore (enumeratePairs books songs)))"
proof -
  let ?ps = "sort_by byScore (enumeratePairs books songs)"
  have "assign_loop (length books) no_assignment ?ps = foldl walk_step no_assignment ?ps"
  proof (rule assign_loop_eq_walk [where B = "id_Book ` set books"])
    show "\<forall>p\<in>set ?ps. id_Book (book_Pair p) \<in> id_Book ` set books"
      by (auto simp: set_sort_by set_enumeratePairs scoredPair_def)
    show "card (id_Book ` set books) \<le> length books"
      by (metis card_length length_map set_map)
  qed (simp_all add: no_assignment_def)
  then show ?thesis by (simp add: matchAllBooksUniquely_eq)
qed

text \<open>
  Claim C2. The two nested loops produce the scored pairs in book-major, song-minor
  order; the sorted list is a permutation of them, descending in total score, and keeps
  pairs of equal score in their enumeration order, and it is the only list that is
  descending and keeps them so; the result of \<^verbatim>\<open>matchAllBooksUniquely\<close> is the map
  reached by walking the sorted list once, committing a pair when neither its book nor its
  song is committed and skipping it otherwise; and the loop stops as soon as the number of
  committed books reaches \<open>n\<close>: whatever follows in the list is not looked at. Being a
  function of the two lists, the result is deterministic.
\<close>

theorem matchAllBooksUniquely_greedy:
  "foldl (allPairs_book songs) [] books = enumeratePairs books songs \<and>
   mset (sort_by byScore (enumeratePairs books songs)) = mset (enumeratePairs books songs) \<and>
   sorted_wrt (\<lambda>a b. totalScore (result_Pair b) \<le> totalScore (result_Pair a))
     (sort_by byScore (enumeratePairs books songs)) \<and>
   (\<forall>c. filter (\<lambda>p. totalScore (result_Pair p) = c) (sort_by byScore (enumeratePairs books songs)) =
        filter (\<lambda>p. totalScore (result_Pair p) = c) (enumeratePairs books songs)) \<and>
   (sorted_wrt (\<lambda>a b. totalScore (result_Pair b) \<le> totalScore (result_Pair a)) ys \<and>
    (\<forall>c. filter (\<lambda>p. totalScore (result_Pair p) = c) ys =
         filter (\<lambda>p. totalScore (result_Pair p) = c) (enumeratePairs books songs)) \<longrightarrow>
    ys = sort_by byScore (enumeratePairs books songs)) \<and>
   matchAllBooksUniquely books songs =
     assignments (foldl walk_step no_assignment (sort_by byScore (enumeratePairs books songs))) \<and>
   (length (assignedBookIds st) \<noteq> n \<and> length (assignedBookIds (assign_loop n st pre)) = n \<longrightarrow>
    assign_loop n st (pre @ rest) = assign_loop n st pre)"
proof -
  let ?key = "\<lambda>p. totalScore (result_Pair p)"
  let ?xs = "enumeratePairs books songs"
  have by_key: "byScore = (\<lambda>a b. ?key b - ?key a)"
    by (simp add: fun_eq_iff byScore_def)
  have pairs: "foldl (allPairs_book songs) [] books = ?xs"
    by (simp add: foldl_allPairs_book)
  have perm: "mset (sort_by byScore ?xs) = mset ?xs"
    by (rule mset_sort_by)
  have sorted: "sorted_wrt (\<lambda>a b. ?key b \<le> ?key a) (sort_by byScore ?xs)"
    unfolding by_key by (rule sorted_sort_by)
  have stable: "filter (\<lambda>p. ?key p = c) (sort_by byScore ?xs) = filter (\<lambda>p. ?key p = c) ?xs" for c
    unfolding by_key by (rule stable_sort_by)
  have unique: "ys = sort_by byScore ?xs"
    if "sorted_wrt (\<lambda>a b. ?key b \<le> ?key a) ys"
      and "\<forall>c. filter (\<lambda>p. ?key p = c) ys = filter (\<lambda>p. ?key p = c) ?xs"
    using that(1) sorted
  proof (rule stable_sorted_unique)
    fix c
    show "filter (\<lambda>p. ?key p = c) ys = filter (\<lambda>p. ?key p = c) (sort_by byScore ?xs)"
      using that(2) stable by simp
  qed
  have stops: "assign_loop n st (pre @ rest) = assign_loop n st pre"
    if "length (assignedBookIds st) \<noteq> n" "length (assignedBookIds (assign_loop n st pre)) = n"
    using that by (rule assign_loop_stops)
  from pairs perm sorted stable unique matchAllBooksUniquely_walk [of books songs] stops
  show ?thesis by blast
qed

text \<open>
  Two books and two songs whose four pairs all tie: the sort keeps the enumeration order,
  the first book gets the first song and the second book the second song; and the loop,
  having committed both books, ignores a further pair.
\<close>

lemma example_ids:
  "id_Book testBook = ''test-book''" "id_Book secondBook = ''second-book''"
  "id_Song perfectMatch = ''perfect-match''" "id_Song perfectMatchTwin = ''perfect-match-2''"
  by (simp_all add: testBook_def secondBook_def perfectMatch_def perfectMatchTwin_def)

lemma calculatePenalties_vibeVector:
  "vibeVector b = vibeVector b' \<Longrightarrow> calculatePenalties b v a = calculatePenalties b' v a"
  by (simp add: calculatePenalties_def)

lemma example_scores:
  "totalScore (getMatchResultForSong testBook perfectMatchTwin) =
     totalScore (getMatchResultForSong testBook perfectMatch)"
  "totalScore (getMatchResultForSong secondBook perfectMatch) =
     totalScore (getMatchResultForSong testBook perfectMatch)"
  "totalScore (getMatchResultForSong secondBook perfectMatchTwin) =
     totalScore (getMatchResultForSong testBook perfectMatch)"
  by (simp_all add: getMatchResultForSong_def secondBook_def perfectMatchTwin_def Let_def
      calculatePenalties_vibeVector [of "testBook \<lparr> id_Book := ''second-book'' \<rparr>" testBook])

lemma song_getMatchResultForSong: "song (getMatchResultForSong b s) = s"
  by (simp add: getMatchResultForSong_def Let_def)

theorem matchAllBooksUniquely_greedy_witness:
  "sort_by byScore (enumeratePairs [testBook, secondBook] [perfectMatch, perfectMatchTwin]) =
     [scoredPair testBook perfectMatch, scoredPair testBook perfectMatchTwin,
      scoredPair secondBook perfectMatch, scoredPair secondBook perfectMatchTwin] \<and>
   matchAllBooksUniquely [testBook, secondBook] [perfectMatch, perfectMatchTwin] =
     [(''test-book'', getMatchResultForSong testBook perfectMatch),
      (''second-book'', getMatchResultForSong secondBook perfectMatchTwin)] \<and>
   length (assignedBookIds no_assignment) \<noteq> 2 \<and>
   length (assignedBookIds (assign_loop 2 no_assignment
      [scoredPair testBook perfectMatch, scoredPair secondBook perfectMatchTwin])) = 2 \<and>
   assign_loop 2 no_assignment
      ([scoredPair testBook perfectMatch, scoredPair secondBook perfectMatchTwin] @
       [scoredPair testBook perfectMatchTwin]) =
     assign_loop 2 no_assignment
      [scoredPair testBook perfectMatch, scoredPair secondBook perfectMatchTwin]"
proof -
  let ?books = "[testBook, secondBook]" and ?songs = "[perfectMatch, perfectMatchTwin]"
  let ?xs = "[scoredPair testBook perfectMatch, scoredPair testBook perfectMatchTwin,
      scoredPair secondBook perfectMatch, scoredPair secondBook perfectMatchTwin]"
  let ?pre = "[scoredPair testBook perfectMatch, scoredPair secondBook perfectMatchTwin]"
  let ?rest = "[scoredPair testBook perfectMatchTwin]"
  have xs: "enumeratePairs ?books ?songs = ?xs"
    by (simp add: enumeratePairs_def)
  have key: "totalScore (result_Pair (scoredPair b s)) = totalScore (getMatchResultForSong b s)"
    for b s by (simp add: scoredPair_def)
  have sorted: "sorted_wrt (\<lambda>a b. totalScore (result_Pair b) \<le> totalScore (result_Pair a)) ?xs"
    by (simp add: key example_scores)
  have n0: "length (assignedBookIds no_assignment) \<noteq> 2"
    by (simp add: no_assignment_def)
  have st: "assign_loop 2 no_assignment ?pre =
     \<lparr> assignments = [(''test-book'', getMatchResultForSong testBook perfectMatch),
                       (''second-book'', getMatchResultForSong secondBook perfectMatchTwin)],
       usedSongIds = [''perfect-match'', ''perfect-match-2''],
       assignedBookIds = [''test-book'', ''second-book''] \<rparr>"
    by (simp add: no_assignment_def scoredPair_def example_ids Set_add_def Let_def)
  then have n2: "length (assignedBookIds (assign_loop 2 no_assignment ?pre)) = 2"
    by simp
  note inst = matchAllBooksUniquely_greedy [of ?songs ?books ?xs no_assignment 2 ?pre ?rest]
  from inst sorted have srt: "sort_by byScore (enumeratePairs ?books ?songs) = ?xs"
    unfolding xs by simp
  from inst have "matchAllBooksUniquely ?books ?songs =
      assignments (foldl walk_step no_assignment (sort_by byScore (enumeratePairs ?books ?songs)))"
    by blast
  also have "\<dots> = [(''test-book'', getMatchResultForSong testBook perfectMatch),
      (''second-book'', getMatchResultForSong secondBook perfectMatchTwin)]"
    unfolding srt
    by (simp add: walk_step_def committed_def commit_def no_assignment_def scoredPair_def
        example_ids Set_add_def)
  finally have res: "matchAllBooksUniquely ?books ?songs =
      [(''test-book'', getMatchResultForSong testBook perfectMatch),
       (''second-book'', getMatchResultForSong secondBook perfectMatchTwin)]" .
  from inst n0 n2 have "assign_loop 2 no_assignment (?pre @ ?rest) = assign_loop 2 no_assignment ?pre"
    by blast
  with srt res n0 n2 show ?thesis by blast
qed

subsection \<open>The composition of the results\<close>

lemma generateScoringFactors_sorted:
  "length (generateScoringFactors b s v t c pf) \<le> 3 \<and>
   sorted_wrt (\<lambda>a b. \<bar>contribution b\<bar> \<le> \<bar>contribution a\<bar>) (generateScoringFactors b s v t c pf)"
  unfolding generateScoringFactors_def Let_def
  by (simp add: sorted_wrt_take sorted_sort_by [of "\<lambda>a. \<bar>contribution a\<bar>"])

lemma well_composed_getMatchResultForSong: "well_composed (getMatchResultForSong b s)"
  unfolding well_composed_def
  using generateScoringFactors_sorted
  by (simp add: getMatchResultForSong_def Let_def TAG_WEIGHT_def VECTOR_WEIGHT_def)

lemma getTopMatches_step_eq: "getTopMatches_step b acc s = acc @ [getMatchResultForSong b s]"
  by (simp add: getTopMatches_step_def getMatchResultForSong_def Let_def)

lemma foldl_getTopMatches_step:
  "foldl (getTopMatches_step b) acc songs = acc @ map (getMatchResultForSong b) songs"
  by (induction songs arbitrary: acc) (simp_all add: getTopMatches_step_eq)

lemma set_getTopMatches: "set (getTopMatches b songs n) \<subseteq> getMatchResultForSong b ` set songs"
proof -
  have "set (getTopMatches b songs n) \<subseteq>
          set (sort_by (\<lambda>a b. totalScore b - totalScore a) (map (getMatchResultForSong b) songs))"
    unfolding getTopMatches_def Let_def foldl_getTopMatches_step
    by (simp add: set_take_subset)
  then show ?thesis by (simp add: set_sort_by)
qed

lemma matchThemeSong_Inr:
  assumes "matchThemeSong b songs = Inr r"
  shows "r \<in> getMatchResultForSong b ` set songs"
proof (cases "songs = []")
  case True
  with assms show ?thesis by (simp add: matchThemeSong_def)
next
  case False
  from matchThemeSong_loop [OF False, of b] obtain i where "i < length songs"
    "foldl (matchThemeSong_step b) None songs = Some (getMatchResultForSong b (songs ! i))"
    by blast
  with assms show ?thesis by (auto simp: matchThemeSong_def)
qed

text \<open>The tense book and the calm song, step by step.\<close>

lemma calm_vector:
  "deriveVibeVector calmAudio =
     \<lparr> melancholy = 0, intimacy = 0.4, intensity = 0, hope = 0.7, tension = 0,
       warmth = 0.5, nostalgia = 0.6, eeriness = 0.1, pace = 0 \<rparr>"
  by (simp add: deriveVibeVector_def calmAudio_def)

lemma tense_vector:
  "vibeVector tenseBook =
     \<lparr> melancholy = 0, intimacy = 0.4, intensity = 0, hope = 0.7, tension = 0.8,
       warmth = 0.5, nostalgia = 0.6, eeriness = 0.1, pace = 0 \<rparr>"
  by (simp add: tenseBook_def calm_vector)

lemma tense_calm_penalties:
  "calculatePenalties tenseBook (deriveVibeVector calmAudio) calmAudio =
     \<lparr> total = - 0.05,
       factors = [\<lparr> factor = ''Song too mellow for high-tension book'', contribution = - 0.05,
                    type_Factor = negative \<rparr>] \<rparr>"
  unfolding calculatePenalties_def tense_vector calm_vector
  by (simp add: calmAudio_def penalize_def)

lemma tense_calm_tags: "getOverlappingTags [''Calm''] [''calm''] = [''calm'']"
  by code_simp

lemma tense_calm_jaccard: "jaccardSimilarity [''Calm''] [''calm''] = 1"
  by code_simp

lemma tense_calm_dimensions:
  "getTopMatchingDimensions (vibeVector tenseBook) (deriveVibeVector calmAudio) 2 =
     [\<lparr> dimension = K_melancholy, bookValue = 0, songValue = 0, similarity = 1 \<rparr>,
      \<lparr> dimension = K_intimacy, bookValue = 0.4, songValue = 0.4, similarity = 1 \<rparr>]"
  unfolding getTopMatchingDimensions_def tense_vector calm_vector
  by (simp add: keys_def sort_by_def)

lemma alignment_label: "toLowerCase (capitalize (key_name k)) = key_name k"
  by (cases k; hypsubst; code_simp)

lemma tense_calm_cosine:
  "cosineSimilarity (vibeVector tenseBook) (deriveVibeVector calmAudio) =
     1.27 / (sqrt 1.91 * sqrt 1.27)"
  unfolding cosineSimilarity_eq dot_Vibe_def norm_Vibe_def tense_vector calm_vector
  by (simp add: keys_def power2_eq_square)

lemma sort_by_sorted: "sorted_wrt (\<lambda>a b. cmp a b \<le> 0) xs \<Longrightarrow> sort_by cmp xs = xs"
proof (induction xs)
  case Nil
  show ?case by (simp add: sort_by_def)
next
  case (Cons x xs)
  then have "sort_by cmp xs = xs" by simp
  then have "sort_by cmp (x # xs) = insert_by cmp x xs"
    by (simp add: sort_by_def)
  also have "\<dots> = x # xs"
    using Cons.prems by (cases xs) simp_all
  finally show ?case .
qed

lemma tense_calm_cosine_bounds:
  "1 / 2 < cosineSimilarity (vibeVector tenseBook) (deriveVibeVector calmAudio) \<and>
   cosineSimilarity (vibeVector tenseBook) (deriveVibeVector calmAudio) \<le> 1"
proof -
  have "sqrt 1.91 * sqrt 1.27 = sqrt (1.91 * 1.27)"
    by (rule real_sqrt_mult [symmetric])
  also have "\<dots> < sqrt 4"
    unfolding real_sqrt_less_iff by simp
  also have "sqrt 4 = (2 :: real)"
    using real_sqrt_abs [of "2 :: real"] by simp
  finally have upper: "sqrt 1.91 * sqrt 1.27 < (2 :: real)" .
  have pos: "0 < sqrt 1.91 * sqrt (1.27 :: real)"
    by simp
  have "(1 :: real) / 2 < 1.27 / 2" by simp
  also have "\<dots> < 1.27 / (sqrt 1.91 * sqrt 1.27)"
    using upper pos by (intro divide_strict_left_mono) simp_all
  finally have "1 / 2 < cosineSimilarity (vibeVector tenseBook) (deriveVibeVector calmAudio)"
    by (simp add: tense_calm_cosine)
  moreover have "cosineSimilarity (vibeVector tenseBook) (deriveVibeVector calmAudio) \<le> 1"
    using abs_cosineSimilarity_le_1 [of "vibeVector tenseBook" "deriveVibeVector calmAudio"]
    by linarith
  ultimately show ?thesis by simp
qed

lemma tense_calm_fields:
  "vibeTags_Book tenseBook = [''Calm'']" "vibeTags_Song calmSong = [''calm'']"
  "audio calmSong = calmAudio"
  by (simp_all add: tenseBook_def calmSong_def)

lemma tense_calm_topFactors:
  "topFactors (getMatchResultForSong tenseBook calmSong) =
     [\<lparr> factor = ''Shared vibes: calm'', contribution = 0.55, type_Factor = positive \<rparr>,
      \<lparr> factor = ''Strong melancholy alignment'',
        contribution = cosineSimilarity (vibeVector tenseBook) (deriveVibeVector calmAudio) * 0.35 * 0.3,
        type_Factor = positive \<rparr>,
      \<lparr> factor = ''Strong intimacy alignment'',
        contribution = cosineSimilarity (vibeVector tenseBook) (deriveVibeVector calmAudio) * 0.35 * 0.3,
        type_Factor = positive \<rparr>]"
proof -
  let ?c = "cosineSimilarity (vibeVector tenseBook) (deriveVibeVector calmAudio)"
  let ?tag = "\<lparr> factor = ''Shared vibes: calm'', contribution = 0.55 :: real, type_Factor = positive \<rparr>"
  let ?d1 = "\<lparr> factor = ''Strong melancholy alignment'', contribution = ?c * 0.35 * 0.3,
        type_Factor = positive \<rparr>"
  let ?d2 = "\<lparr> factor = ''Strong intimacy alignment'', contribution = ?c * 0.35 * 0.3,
        type_Factor = positive \<rparr>"
  let ?p = "\<lparr> factor = ''Song too mellow for high-tension book'', contribution = - 0.05 :: real,
        type_Factor = negative \<rparr>"
  let ?cmp = "\<lambda>a b. \<bar>contribution b\<bar> - \<bar>contribution a\<bar>"
  have dims: "dimension_factors ?c
      (getTopMatchingDimensions (vibeVector tenseBook) (deriveVibeVector calmAudio) 2) = [?d1, ?d2]"
    unfolding tense_calm_dimensions dimension_factors_def
    by (simp add: alignment_label VECTOR_WEIGHT_def)
  have "sorted_wrt (\<lambda>a b. ?cmp a b \<le> 0) [?tag, ?d1, ?d2, ?p]"
    using tense_calm_cosine_bounds by simp
  then have srt: "sort_by ?cmp [?tag, ?d1, ?d2, ?p] = [?tag, ?d1, ?d2, ?p]"
    by (rule sort_by_sorted)
  have "generateScoringFactors tenseBook calmSong (deriveVibeVector calmAudio) 1 ?c [?p] =
          [?tag, ?d1, ?d2]"
    unfolding generateScoringFactors_def Let_def tense_calm_fields tense_calm_tags dims
    by (simp add: srt [simplified] TAG_WEIGHT_def)
  then show ?thesis
    by (simp add: getMatchResultForSong_def Let_def tense_calm_fields tense_calm_jaccard
        tense_calm_penalties)
qed

lemma byMagnitude_eq: "(\<lambda>a b. \<bar>contribution b\<bar> - \<bar>contribution a\<bar>) = byMagnitude"
  by (simp add: fun_eq_iff byMagnitude_def)

lemma topFactors_candidates:
  "topFactors (getMatchResultForSong b s) = take 3 (sort_by byMagnitude (candidate_factors b s))"
proof -
  have "generateScoringFactors b s (deriveVibeVector (audio s))
          (jaccardSimilarity (vibeTags_Book b) (vibeTags_Song s))
          (cosineSimilarity (vibeVector b) (deriveVibeVector (audio s)))
          (factors (calculatePenalties b (deriveVibeVector (audio s)) (audio s))) =
        take 3 (sort_by byMagnitude (candidate_factors b s))"
    unfolding generateScoringFactors_def candidate_factors_def dimension_factors_def Let_def
      alignment_label byMagnitude_eq
    by (simp add: TAG_WEIGHT_def VECTOR_WEIGHT_def)
  then show ?thesis
    by (simp add: getMatchResultForSong_def Let_def)
qed

lemma sorted_byMagnitude:
  "sorted_wrt (\<lambda>a b. \<bar>contribution b\<bar> \<le> \<bar>contribution a\<bar>) (sort_by byMagnitude xs)"
  unfolding byMagnitude_eq [symmetric] by (rule sorted_sort_by [of "\<lambda>a. \<bar>contribution a\<bar>"])

lemma stable_byMagnitude:
  "filter (\<lambda>f. \<bar>contribution f\<bar> = c) (sort_by byMagnitude xs) = filter (\<lambda>f. \<bar>contribution f\<bar> = c) xs"
  unfolding byMagnitude_eq [symmetric] by (rule stable_sort_by [of "\<lambda>a. \<bar>contribution a\<bar>"])

lemma kept_outrank_dropped:
  assumes "k \<in> set (take n (sort_by byMagnitude xs))" "d \<in> set (drop n (sort_by byMagnitude xs))"
  shows "\<bar>contribution d\<bar> \<le> \<bar>contribution k\<bar>"
proof -
  have "sorted_wrt (\<lambda>a b. \<bar>contribution b\<bar> \<le> \<bar>contribution a\<bar>)
          (take n (sort_by byMagnitude xs) @ drop n (sort_by byMagnitude xs))"
    using sorted_byMagnitude [of xs] by simp
  with assms show ?thesis
    unfolding sorted_wrt_append by blast
qed

lemma tense_calm_candidates:
  "candidate_factors tenseBook calmSong =
     [\<lparr> factor = ''Shared vibes: calm'', contribution = 0.55, type_Factor = positive \<rparr>,
      \<lparr> factor = ''Strong melancholy alignment'',
        contribution = cosineSimilarity (vibeVector tenseBook) (deriveVibeVector calmAudio) * 0.35 * 0.3,
        type_Factor = positive \<rparr>,
      \<lparr> factor = ''Strong intimacy alignment'',
        contribution = cosineSimilarity (vibeVector tenseBook) (deriveVibeVector calmAudio) * 0.35 * 0.3,
        type_Factor = positive \<rparr>,
      \<lparr> factor = ''Song too mellow for high-tension book'', contribution = - 0.05,
        type_Factor = negative \<rparr>]"
  unfolding candidate_factors_def Let_def tense_calm_fields tense_calm_tags tense_calm_dimensions
    tense_calm_penalties tense_calm_jaccard
  by simp

text \<open>
  Claim C5. The result of \<^verbatim>\<open>getMatchResultForSong\<close> carries the Jaccard similarity of
  the tags, the cosine similarity of the vectors and the penalty total, and its total score
  is \<open>tagScore * 0.55 + vectorScore * 0.35 + penaltyScore\<close>. Its factors are the first three of
  the candidate factors (shared tags, aligned dimensions, penalties) sorted by descending
  absolute contribution: the sorted list is a permutation of the candidates, is in descending
  order, keeps candidates of equal magnitude in their order, and is the only list that does;
  so no factor that is cut off has a larger magnitude than a factor that is kept, and every
  penalty factor is a candidate. Every result that \<^verbatim>\<open>matchThemeSong\<close>,
  \<^verbatim>\<open>getTopMatches\<close> and \<^verbatim>\<open>matchAllBooksUniquely\<close> return is such a result, of the book
  and one of the songs. A penalty factor can be cut off: for the tense book and the calm song
  a rule fires, yet the three factors kept are all positive, each of magnitude above the 0.05
  of the penalty.
\<close>

theorem scoring_composition:
  "well_composed (getMatchResultForSong book s) \<and>
   tagScore (getMatchResultForSong book s) =
     jaccardSimilarity (vibeTags_Book book) (vibeTags_Song s) \<and>
   vectorScore (getMatchResultForSong book s) =
     cosineSimilarity (vibeVector book) (deriveVibeVector (audio s)) \<and>
   penaltyScore (getMatchResultForSong book s) =
     total (calculatePenalties book (deriveVibeVector (audio s)) (audio s)) \<and>
   topFactors (getMatchResultForSong book s) =
     take 3 (sort_by byMagnitude (candidate_factors book s)) \<and>
   mset (sort_by byMagnitude (candidate_factors book s)) = mset (candidate_factors book s) \<and>
   sorted_wrt (\<lambda>a b. \<bar>contribution b\<bar> \<le> \<bar>contribution a\<bar>)
     (sort_by byMagnitude (candidate_factors book s)) \<and>
   (\<forall>c. filter (\<lambda>f. \<bar>contribution f\<bar> = c) (sort_by byMagnitude (candidate_factors book s)) =
        filter (\<lambda>f. \<bar>contribution f\<bar> = c) (candidate_factors book s)) \<and>
   (sorted_wrt (\<lambda>a b. \<bar>contribution b\<bar> \<le> \<bar>contribution a\<bar>) ys \<and>
    (\<forall>c. filter (\<lambda>f. \<bar>contribution f\<bar> = c) ys =
         filter (\<lambda>f. \<bar>contribution f\<bar> = c) (candidate_factors book s)) \<longrightarrow>
    topFactors (getMatchResultForSong book s) = take 3 ys) \<and>
   (\<forall>k\<in>set (topFactors (getMatchResultForSong book s)).
      \<forall>d\<in>set (drop 3 (sort_by byMagnitude (candidate_factors book s))).
        \<bar>contribution d\<bar> \<le> \<bar>contribution k\<bar>) \<and>
   (\<forall>p\<in>set (factors (calculatePenalties book (deriveVibeVector (audio s)) (audio s))).
      p \<in> set (candidate_factors book s)) \<and>
   (matchThemeSong book songs = Inr r \<longrightarrow>
      well_composed r \<and> (\<exists>s'\<in>set songs. r = getMatchResultForSong book s')) \<and>
   (\<forall>r\<in>set (getTopMatches book songs n).
      well_composed r \<and> (\<exists>s'\<in>set songs. r = getMatchResultForSong book s')) \<and>
   (\<forall>e\<in>set (matchAllBooksUniquely books songs).
      well_composed (snd e) \<and>
      (\<exists>b\<in>set books. \<exists>s'\<in>set songs. snd e = getMatchResultForSong b s')) \<and>
   factors (calculatePenalties tenseBook (deriveVibeVector (audio calmSong)) (audio calmSong)) \<noteq> [] \<and>
   length (topFactors (getMatchResultForSong tenseBook calmSong)) = 3 \<and>
   list_all (\<lambda>f. type_Factor f = positive \<and> 0.05 < \<bar>contribution f\<bar>)
     (topFactors (getMatchResultForSong tenseBook calmSong))"
proof -
  let ?C = "candidate_factors book s"
  let ?S = "sort_by byMagnitude ?C"
  have one: "well_composed (getMatchResultForSong book s)"
    by (rule well_composed_getMatchResultForSong)
  have fields: "tagScore (getMatchResultForSong book s) =
     jaccardSimilarity (vibeTags_Book book) (vibeTags_Song s)"
    "vectorScore (getMatchResultForSong book s) =
     cosineSimilarity (vibeVector book) (deriveVibeVector (audio s))"
    "penaltyScore (getMatchResultForSong book s) =
     total (calculatePenalties book (deriveVibeVector (audio s)) (audio s))"
    by (simp_all add: getMatchResultForSong_def Let_def)
  have kept: "topFactors (getMatchResultForSong book s) = take 3 ?S"
    by (rule topFactors_candidates)
  have perm: "mset ?S = mset ?C"
    by (rule mset_sort_by)
  have sorted: "sorted_wrt (\<lambda>a b. \<bar>contribution b\<bar> \<le> \<bar>contribution a\<bar>) ?S"
    by (rule sorted_byMagnitude)
  have stable: "\<forall>c. filter (\<lambda>f. \<bar>contribution f\<bar> = c) ?S = filter (\<lambda>f. \<bar>contribution f\<bar> = c) ?C"
    by (simp add: stable_byMagnitude)
  have unique: "topFactors (getMatchResultForSong book s) = take 3 ys"
    if "sorted_wrt (\<lambda>a b. \<bar>contribution b\<bar> \<le> \<bar>contribution a\<bar>) ys"
      and "\<forall>c. filter (\<lambda>f. \<bar>contribution f\<bar> = c) ys = filter (\<lambda>f. \<bar>contribution f\<bar> = c) ?C"
  proof -
    have "ys = ?S"
      using that(1) sorted
    proof (rule stable_sorted_unique)
      fix c
      show "filter (\<lambda>f. \<bar>contribution f\<bar> = c) ys = filter (\<lambda>f. \<bar>contribution f\<bar> = c) ?S"
        using that(2) stable by simp
    qed
    with kept show ?thesis by simp
  qed
  have outrank: "\<forall>k\<in>set (topFactors (getMatchResultForSong book s)).
      \<forall>d\<in>set (drop 3 ?S). \<bar>contribution d\<bar> \<le> \<bar>contribution k\<bar>"
    unfolding kept using kept_outrank_dropped by blast
  have pens: "\<forall>p\<in>set (factors (calculatePenalties book (deriveVibeVector (audio s)) (audio s))).
      p \<in> set ?C"
    by (simp add: candidate_factors_def Let_def)
  have best: "well_composed r \<and> (\<exists>s'\<in>set songs. r = getMatchResultForSong book s')"
    if "matchThemeSong book songs = Inr r"
    using matchThemeSong_Inr [OF that] well_composed_getMatchResultForSong by auto
  have top: "\<forall>r\<in>set (getTopMatches book songs n).
      well_composed r \<and> (\<exists>s'\<in>set songs. r = getMatchResultForSong book s')"
    using set_getTopMatches [of book songs n] well_composed_getMatchResultForSong by auto
  have uniq: "\<forall>e\<in>set (matchAllBooksUniquely books songs).
      well_composed (snd e) \<and>
      (\<exists>b\<in>set books. \<exists>s'\<in>set songs. snd e = getMatchResultForSong b s')"
  proof
    fix e
    assume "e \<in> set (matchAllBooksUniquely books songs)"
    from matchAllBooksUniquely_entries [OF this]
    obtain b s' where "b \<in> set books" "s' \<in> set songs" "e = (id_Book b, getMatchResultForSong b s')"
      by blast
    then show "well_composed (snd e) \<and>
      (\<exists>b\<in>set books. \<exists>s'\<in>set songs. snd e = getMatchResultForSong b s')"
      using well_composed_getMatchResultForSong by auto
  qed
  have pen: "factors (calculatePenalties tenseBook (deriveVibeVector (audio calmSong)) (audio calmSong)) \<noteq> []"
    by (simp add: tense_calm_fields tense_calm_penalties)
  have len: "length (topFactors (getMatchResultForSong tenseBook calmSong)) = 3"
    by (simp add: tense_calm_topFactors)
  have pos: "list_all (\<lambda>f. type_Factor f = positive \<and> 0.05 < \<bar>contribution f\<bar>)
     (topFactors (getMatchResultForSong tenseBook calmSong))"
    unfolding tense_calm_topFactors using tense_calm_cosine_bounds by simp
  from one fields kept perm sorted stable unique outrank pens best top uniq pen len pos
  show ?thesis by blast
qed

text \<open>The tense book with the calm song: four candidates, already in order, of which the
  penalty is cut off; and the three functions on the test book and the first test song.\<close>

theorem scoring_composition_witness:
  "candidate_factors tenseBook calmSong =
     [\<lparr> factor = ''Shared vibes: calm'', contribution = 0.55, type_Factor = positive \<rparr>,
      \<lparr> factor = ''Strong melancholy alignment'',
        contribution = cosineSimilarity (vibeVector tenseBook) (deriveVibeVector calmAudio) * 0.35 * 0.3,
        type_Factor = positive \<rparr>,
      \<lparr> factor = ''Strong intimacy alignment'',
        contribution = cosineSimilarity (vibeVector tenseBook) (deriveVibeVector calmAudio) * 0.35 * 0.3,
        type_Factor = positive \<rparr>,
      \<lparr> factor = ''Song too mellow for high-tension book'', contribution = - 0.05,
        type_Factor = negative \<rparr>] \<and>
   sorted_wrt (\<lambda>a b. \<bar>contribution b\<bar> \<le> \<bar>contribution a\<bar>)
     [\<lparr> factor = ''Shared vibes: calm'', contribution = 0.55, type_Factor = positive \<rparr>,
      \<lparr> factor = ''Strong melancholy alignment'',
        contribution = cosineSimilarity (vibeVector tenseBook) (deriveVibeVector calmAudio) * 0.35 * 0.3,
        type_Factor = positive \<rparr>,
      \<lparr> factor = ''Strong intimacy alignment'',
        contribution = cosineSimilarity (vibeVector tenseBook) (deriveVibeVector calmAudio) * 0.35 * 0.3,
        type_Factor = positive \<rparr>,
      \<lparr> factor = ''Song too mellow for high-tension book'', contribution = - 0.05,
        type_Factor = negative \<rparr>] \<and>
   topFactors (getMatchResultForSong tenseBook calmSong) =
     [\<lparr> factor = ''Shared vibes: calm'', contribution = 0.55, type_Factor = positive \<rparr>,
      \<lparr> factor = ''Strong melancholy alignment'',
        contribution = cosineSimilarity (vibeVector tenseBook) (deriveVibeVector calmAudio) * 0.35 * 0.3,
        type_Factor = positive \<rparr>,
      \<lparr> factor = ''Strong intimacy alignment'',
        contribution = cosineSimilarity (vibeVector tenseBook) (deriveVibeVector calmAudio) * 0.35 * 0.3,
        type_Factor = positive \<rparr>] \<and>
   drop 3 (sort_by byMagnitude (candidate_factors tenseBook calmSong)) =
     [\<lparr> factor = ''Song too mellow for high-tension book'', contribution = - 0.05,
        type_Factor = negative \<rparr>] \<and>
   list_all (\<lambda>k. \<bar>- 0.05 :: real\<bar> \<le> \<bar>contribution k\<bar>)
     (topFactors (getMatchResultForSong tenseBook calmSong)) \<and>
   list_all (\<lambda>p. p \<in> set (candidate_factors tenseBook calmSong))
     (factors (calculatePenalties tenseBook (deriveVibeVector (audio calmSong)) (audio calmSong))) \<and>
   matchThemeSong testBook [perfectMatch] = Inr (getMatchResultForSong testBook perfectMatch) \<and>
   getTopMatches testBook [perfectMatch] 5 = [getMatchResultForSong testBook perfectMatch] \<and>
   matchAllBooksUniquely [testBook] [perfectMatch] =
     [(''test-book'', getMatchResultForSong testBook perfectMatch)] \<and>
   well_composed (getMatchResultForSong testBook perfectMatch) \<and>
   list_all well_composed (getTopMatches testBook [perfectMatch] 5) \<and>
   list_all (\<lambda>e. well_composed (snd e)) (matchAllBooksUniquely [testBook] [perfectMatch])"
proof -
  let ?xs = "[\<lparr> factor = ''Shared vibes: calm'', contribution = 0.55, type_Factor = positive \<rparr>,
      \<lparr> factor = ''Strong melancholy alignment'',
        contribution = cosineSimilarity (vibeVector tenseBook) (deriveVibeVector calmAudio) * 0.35 * 0.3,
        type_Factor = positive \<rparr>,
      \<lparr> factor = ''Strong intimacy alignment'',
        contribution = cosineSimilarity (vibeVector tenseBook) (deriveVibeVector calmAudio) * 0.35 * 0.3,
        type_Factor = positive \<rparr>,
      \<lparr> factor = ''Song too mellow for high-tension book'', contribution = - 0.05,
        type_Factor = negative \<rparr>]"
  let ?p = "\<lparr> factor = ''Song too mellow for high-tension book'', contribution = - 0.05,
        type_Factor = negative \<rparr>"
  have srt: "sorted_wrt (\<lambda>a b. \<bar>contribution b\<bar> \<le> \<bar>contribution a\<bar>) ?xs"
    using tense_calm_cosine_bounds by simp
  note calm = scoring_composition [where book = tenseBook and s = calmSong and ys = ?xs
      and songs = "[]" and books = "[]"]
  from calm srt have kept: "topFactors (getMatchResultForSong tenseBook calmSong) = take 3 ?xs"
    unfolding tense_calm_candidates by blast
  from srt have "sorted_wrt (\<lambda>a b. byMagnitude a b \<le> 0) ?xs"
    by (simp add: byMagnitude_def)
  then have sorted_xs: "sort_by byMagnitude ?xs = ?xs"
    by (rule sort_by_sorted)
  then have dropped: "drop 3 (sort_by byMagnitude (candidate_factors tenseBook calmSong)) = [?p]"
    unfolding tense_calm_candidates by simp
  from calm have "\<forall>k\<in>set (topFactors (getMatchResultForSong tenseBook calmSong)).
      \<forall>d\<in>set (drop 3 (sort_by byMagnitude (candidate_factors tenseBook calmSong))).
        \<bar>contribution d\<bar> \<le> \<bar>contribution k\<bar>"
    by blast
  then have outrank: "list_all (\<lambda>k. \<bar>- 0.05 :: real\<bar> \<le> \<bar>contribution k\<bar>)
     (topFactors (getMatchResultForSong tenseBook calmSong))"
    unfolding dropped list_all_iff by simp
  from calm have pens: "list_all (\<lambda>p. p \<in> set (candidate_factors tenseBook calmSong))
     (factors (calculatePenalties tenseBook (deriveVibeVector (audio calmSong)) (audio calmSong)))"
    unfolding list_all_iff by blast
  have best: "matchThemeSong testBook [perfectMatch] =
      Inr (getMatchResultForSong testBook perfectMatch)"
    by (simp add: matchThemeSong_def matchThemeSong_step_eq)
  have top: "getTopMatches testBook [perfectMatch] 5 = [getMatchResultForSong testBook perfectMatch]"
    unfolding getTopMatches_def Let_def foldl_getTopMatches_step by (simp add: sort_by_def)
  have uniq: "matchAllBooksUniquely [testBook] [perfectMatch] =
     [(''test-book'', getMatchResultForSong testBook perfectMatch)]"
    by (simp add: matchAllBooksUniquely_eq enumeratePairs_def sort_by_def no_assignment_def
        scoredPair_def example_ids Set_add_def Let_def)
  note inst = scoring_composition [where book = testBook and s = perfectMatch
      and songs = "[perfectMatch]" and r = "getMatchResultForSong testBook perfectMatch"
      and n = 5 and books = "[testBook]"]
  from inst best have wc: "well_composed (getMatchResultForSong testBook perfectMatch)"
    by blast
  from inst have wt: "list_all well_composed (getTopMatches testBook [perfectMatch] 5)"
    unfolding list_all_iff by blast
  from inst
  have wu: "list_all (\<lambda>e. well_composed (snd e)) (matchAllBooksUniquely [testBook] [perfectMatch])"
    unfolding list_all_iff by blast
  from kept have kept3: "topFactors (getMatchResultForSong tenseBook calmSong) =
     [\<lparr> factor = ''Shared vibes: calm'', contribution = 0.55, type_Factor = positive \<rparr>,
      \<lparr> factor = ''Strong melancholy alignment'',
        contribution = cosineSimilarity (vibeVector tenseBook) (deriveVibeVector calmAudio) * 0.35 * 0.3,
        type_Factor = positive \<rparr>,
      \<lparr> factor = ''Strong intimacy alignment'',
        contribution = cosineSimilarity (vibeVector tenseBook) (deriveVibeVector calmAudio) * 0.35 * 0.3,
        type_Factor = positive \<rparr>]"
    by simp
  from tense_calm_candidates srt kept3 dropped outrank pens best top uniq wc wt wu
  show ?thesis by (intro conjI)
qed

subsection \<open>The run-time model against the typed model\<close>

























end
